theory Spec2Isabelle
  imports Main
begin

section \<open>The document trees\<close>

text \<open>
  The transformation core of libxslt (\<^verbatim>\<open>transform.c\<close>) works on libxml2 trees through
  pointers. A pointer is an address or NULL; the nodes live in a store. The node record has
  the fields of \<^verbatim>\<open>struct _xmlNode\<close> that \<^verbatim>\<open>transform.c\<close> reads or writes. The sibling
  chain (\<^verbatim>\<open>children\<close>, \<^verbatim>\<open>next\<close>) is kept as the parent's ordered list of children, so
  \<^verbatim>\<open>cur->children\<close> is the head of that list and \<^verbatim>\<open>cur->next\<close> the element that follows
  \<^verbatim>\<open>cur\<close> in its parent's list.
\<close>

datatype fault = NullDeref | OutOfFuel

datatype 'a result = Fault fault | Return 'a

datatype xmlElementType =
    XML_ELEMENT_NODE
  | XML_ATTRIBUTE_NODE
  | XML_TEXT_NODE
  | XML_CDATA_SECTION_NODE
  | XML_ENTITY_REF_NODE
  | XML_ENTITY_NODE
  | XML_PI_NODE
  | XML_COMMENT_NODE
  | XML_DOCUMENT_NODE
  | XML_DOCUMENT_TYPE_NODE
  | XML_DOCUMENT_FRAG_NODE
  | XML_NOTATION_NODE
  | XML_HTML_DOCUMENT_NODE
  | XML_DTD_NODE
  | XML_ELEMENT_DECL
  | XML_ATTRIBUTE_DECL
  | XML_ENTITY_DECL
  | XML_NAMESPACE_DECL

type_synonym xmlNodePtr = "nat option"

record xmlNs =
  ns_prefix :: "string option"
  ns_href :: string

record xmlNode =
  ntype :: xmlElementType
  nname :: string
  ncontent :: "string option"
  nns :: "xmlNs option"
  nnsDef :: "xmlNs list"
  nproperties :: "(string \<times> string) list"
  nchildren :: "nat list"
  nparent :: xmlNodePtr
  ndoc :: xmlNodePtr

record xmlDtd =
  dtd_name :: string
  ExternalID :: "string option"
  SystemID :: "string option"

datatype xmlCharEncoding = XML_CHAR_ENCODING_NONE | XML_CHAR_ENCODING_UTF8

record xmlDoc =
  d_version :: "string option"
  d_encoding :: "string option"
  d_charset :: xmlCharEncoding
  d_intSubset :: "xmlDtd option"

section \<open>The stylesheet, the XPath context and the transformation context\<close>

text \<open>
  \<^verbatim>\<open>stripSpaces\<close> is a hash table from element names to the strings \<^verbatim>\<open>strip\<close> and
  \<^verbatim>\<open>preserve\<close>; the table pointer itself may be NULL.
\<close>

record xsltStylesheet =
  stripSpaces :: "(string \<Rightarrow> string option) option"
  s_method :: "string option"
  doctypePublic :: "string option"
  doctypeSystem :: "string option"
  s_version :: "string option"
  s_encoding :: "string option"

record xmlXPathContext =
  xp_node :: xmlNodePtr
  contextSize :: int
  proximityPosition :: int

text \<open>
  The memory the transformation works in: the node store, the document headers, the
  allocation counter and the messages sent to \<^verbatim>\<open>xsltGenericError\<close>.
\<close>

record world =
  heap :: "nat \<Rightarrow> xmlNode option"
  docs :: "nat \<Rightarrow> xmlDoc option"
  next_id :: nat
  errlog :: "string list"

text \<open>
  The state of a running transformation is the memory together with the fields of
  \<^verbatim>\<open>struct _xsltTransformContext\<close>. The variable stack is a list of scopes, the innermost
  first; a scope lists the stylesheet nodes of the variables and parameters declared in it.
\<close>

record state = world +
  ctxt_style :: "xsltStylesheet option"
  ctxt_type :: int
  ctxt_doc :: xmlNodePtr
  ctxt_node :: xmlNodePtr
  ctxt_nodeList :: "nat list option"
  ctxt_output :: xmlNodePtr
  ctxt_insert :: xmlNodePtr
  ctxt_xpathCtxt :: "xmlXPathContext option"
  ctxt_vars :: "nat list list"

text \<open>
  The functions of \<^verbatim>\<open>transform.c\<close> call each other recursively. Each is modelled with the
  recursive calls it makes handed to a parameter \<open>rec\<close>, which receives the call as a value
  of the following type; a theorem about such a function holds whatever the callee does.
  The interpreter that closes the recursion is \<open>xslt_exec\<close> below.
\<close>

datatype call =
    ProcessOneNode xmlNodePtr
  | ApplyOneTemplate xmlNodePtr xmlNodePtr
  | ApplyTemplates xmlNodePtr xmlNodePtr
  | ValueOf xmlNodePtr xmlNodePtr
  | If xmlNodePtr xmlNodePtr
  | ForEach xmlNodePtr xmlNodePtr
  | Attribute xmlNodePtr xmlNodePtr
  | Comment xmlNodePtr xmlNodePtr
  | ProcessingInstruction xmlNodePtr xmlNodePtr
  | CallTemplate xmlNodePtr xmlNodePtr

type_synonym callee = "call \<Rightarrow> state \<Rightarrow> state result"

section \<open>What the transformation core takes from elsewhere\<close>

text \<open>
  XPath values. A node-set value holds a pointer to the set, which may be NULL; numbers are
  floating point and stay uninterpreted.
\<close>

typedecl xmlDouble

datatype xmlXPathObject =
    XPATH_UNDEFINED
  | XPATH_NODESET "nat list option"
  | XPATH_BOOLEAN bool
  | XPATH_NUMBER xmlDouble
  | XPATH_STRING string

text \<open>
  How a handler reads the value of an expression: as it is, or after
  \<^verbatim>\<open>xmlXPathStringFunction\<close>, \<^verbatim>\<open>xmlXPathBooleanFunction\<close>, or
  \<^verbatim>\<open>xmlXPathStringFunction\<close> followed by \<^verbatim>\<open>xmlXPathNumberFunction\<close>.
\<close>

datatype xpath_conv = AsIs | ToString | ToBoolean | ToStringNumber

text \<open>
  The parameters: the allocator (\<open>malloc_ok\<close> says which allocations succeed, by their
  number); the constants and macros of headers that are not part of \<^verbatim>\<open>transform.c\<close>
  (the \<^verbatim>\<open>xsltOutputType\<close> enumerators and \<^verbatim>\<open>XSLT_NAMESPACE\<close>); the XPath engine
  (\<open>xpath_eval\<close> is the sequence \<^verbatim>\<open>valuePush\<close>, \<^verbatim>\<open>xmlXPathEvalExpr\<close>, conversion,
  \<^verbatim>\<open>valuePop\<close>, with NULL for an empty value stack; \<open>xpath_fresh\<close> is the context
  \<^verbatim>\<open>xmlXPathNewContext\<close> returns); the pattern engine (\<^verbatim>\<open>xsltGetTemplate\<close>,
  \<^verbatim>\<open>xsltFindTemplate\<close>, which return the template's \<^verbatim>\<open>content\<close> pointer, or nothing
  when there is no template); the variable store's declarations; the attribute value
  templates of \<^verbatim>\<open>templates.c\<close>; the namespace and qualified name functions of libxml2;
  the comparison of two sort keys; and \<open>uninit_ptr\<close>, the value an uninitialised local
  pointer happens to hold.
\<close>

record env =
  malloc_ok :: "nat \<Rightarrow> bool"
  XSLT_OUTPUT_XML :: int
  XSLT_OUTPUT_HTML :: int
  XSLT_OUTPUT_TEXT :: int
  XSLT_NAMESPACE :: string
  xsltEvalGlobalVariables :: "state \<Rightarrow> state result"
  xpath_fresh :: xmlXPathContext
  xpath_eval :: "xpath_conv \<Rightarrow> string \<Rightarrow> state \<Rightarrow> xmlXPathObject option"
  xsltGetTemplate :: "state \<Rightarrow> xmlNodePtr \<Rightarrow> xmlNodePtr option"
  xsltFindTemplate :: "xsltStylesheet option \<Rightarrow> string \<Rightarrow> string option \<Rightarrow> xmlNodePtr option"
  xsltParseStylesheetVariable :: "state \<Rightarrow> nat \<Rightarrow> state result"
  xsltParseStylesheetParam :: "state \<Rightarrow> nat \<Rightarrow> state result"
  xsltEvalAttrValueTemplate :: "state \<Rightarrow> xmlNodePtr \<Rightarrow> string \<Rightarrow> string option"
  xsltEvalTemplateString :: "state \<Rightarrow> xmlNodePtr \<Rightarrow> xmlNodePtr \<Rightarrow> (string option \<times> state) result"
  xsltAttrListTemplateProcess :: "state \<Rightarrow> nat \<Rightarrow> (string \<times> string) list \<Rightarrow> (string \<times> string) list"
  xmlSplitQName2 :: "string \<Rightarrow> (string \<times> string) option"
  xmlSearchNs :: "state \<Rightarrow> xmlNodePtr \<Rightarrow> string \<Rightarrow> xmlNs option"
  xmlSearchNsByHref :: "state \<Rightarrow> nat \<Rightarrow> string \<Rightarrow> xmlNs option"
  xmlNodeGetContent :: "state \<Rightarrow> nat \<Rightarrow> string option"
  sort_key_greater :: "bool \<Rightarrow> xmlXPathObject option \<Rightarrow> xmlXPathObject option \<Rightarrow> bool"
  uninit_ptr :: xmlNodePtr

definition xmlMalloc :: "env \<Rightarrow> 'a world_scheme \<Rightarrow> nat option \<times> 'a world_scheme" where
  "xmlMalloc e w =
     ((if malloc_ok e (next_id w) then Some (next_id w) else None),
      w\<lparr>next_id := Suc (next_id w)\<rparr>)"

definition xsltGenericError :: "string \<Rightarrow> 'a world_scheme \<Rightarrow> 'a world_scheme" where
  "xsltGenericError msg w = w\<lparr>errlog := errlog w @ [msg]\<rparr>"

section \<open>The entry point\<close>

text \<open>
  \<^verbatim>\<open>xsltNewTransformContext\<close>: allocate the context and clear it (\<^verbatim>\<open>memset\<close> to 0), or
  report the failed allocation and return NULL. The result is the context (as a state over
  the memory) or, for NULL, the memory alone.
\<close>

definition xsltNewTransformContext :: "env \<Rightarrow> world \<Rightarrow> world + state" where
  "xsltNewTransformContext e w =
     (case xmlMalloc e w of
        (None, w1) \<Rightarrow> Inl (xsltGenericError ''xsltNewTransformContext : malloc failed'' w1)
      | (Some a, w1) \<Rightarrow>
          Inr \<lparr>heap = heap w1, docs = docs w1, next_id = next_id w1, errlog = errlog w1,
               ctxt_style = None, ctxt_type = 0, ctxt_doc = None, ctxt_node = None,
               ctxt_nodeList = None, ctxt_output = None, ctxt_insert = None,
               ctxt_xpathCtxt = None, ctxt_vars = []\<rparr>)"

text \<open>\<^verbatim>\<open>xsltFreeTransformContext\<close> leaves the memory without the context.\<close>

definition xsltFreeTransformContext :: "state \<Rightarrow> world" where
  "xsltFreeTransformContext s =
     \<lparr>heap = heap s, docs = docs s, next_id = next_id s, errlog = errlog s\<rparr>"

text \<open>
  The tree library's document constructors. \<^verbatim>\<open>xmlNewDoc\<close> makes an empty XML document
  carrying the version. Modelled from the spec: \<^verbatim>\<open>htmlNewDoc\<close> (libxml2) makes an HTML
  document seeded with the declared public and system DOCTYPE identifiers; the seed is kept
  as an internal subset named \<^verbatim>\<open>HTML\<close>.
\<close>

definition new_doc_node :: "xmlElementType \<Rightarrow> nat \<Rightarrow> xmlNode" where
  "new_doc_node t a =
     \<lparr>ntype = t, nname = [], ncontent = None, nns = None, nnsDef = [], nproperties = [],
      nchildren = [], nparent = None, ndoc = Some a\<rparr>"

definition xmlNewDoc :: "env \<Rightarrow> string option \<Rightarrow> state \<Rightarrow> xmlNodePtr \<times> state" where
  "xmlNewDoc e version s =
     (case xmlMalloc e s of
        (None, s1) \<Rightarrow> (None, s1)
      | (Some a, s1) \<Rightarrow>
          (Some a,
           s1\<lparr>heap := (heap s1)(a \<mapsto> new_doc_node XML_DOCUMENT_NODE a),
              docs := (docs s1)(a \<mapsto> \<lparr>d_version = version, d_encoding = None,
                                        d_charset = XML_CHAR_ENCODING_NONE,
                                        d_intSubset = None\<rparr>)\<rparr>))"

definition htmlNewDoc :: "env \<Rightarrow> string option \<Rightarrow> string option \<Rightarrow> state \<Rightarrow> xmlNodePtr \<times> state" where
  "htmlNewDoc e pub sys s =
     (case xmlMalloc e s of
        (None, s1) \<Rightarrow> (None, s1)
      | (Some a, s1) \<Rightarrow>
          (Some a,
           s1\<lparr>heap := (heap s1)(a \<mapsto> new_doc_node XML_HTML_DOCUMENT_NODE a),
              docs := (docs s1)(a \<mapsto> \<lparr>d_version = None, d_encoding = None,
                                        d_charset = XML_CHAR_ENCODING_NONE,
                                        d_intSubset =
                                          Some \<lparr>dtd_name = ''HTML'', ExternalID = pub,
                                                SystemID = sys\<rparr>\<rparr>)\<rparr>))"

text \<open>\<^verbatim>\<open>xmlDocGetRootElement\<close>: the first element among the document's children.\<close>

definition is_element :: "(nat \<Rightarrow> xmlNode option) \<Rightarrow> nat \<Rightarrow> bool" where
  "is_element h a = (case h a of None \<Rightarrow> False | Some n \<Rightarrow> ntype n = XML_ELEMENT_NODE)"

definition xmlDocGetRootElement :: "(nat \<Rightarrow> xmlNode option) \<Rightarrow> nat \<Rightarrow> xmlNodePtr" where
  "xmlDocGetRootElement h d =
     (case h d of None \<Rightarrow> None | Some n \<Rightarrow> find (is_element h) (nchildren n))"

text \<open>
  \<^verbatim>\<open>xmlCreateIntSubset\<close>: allocate a DTD with the given name and identifiers (NULL when
  the allocation fails).
\<close>

definition xmlCreateIntSubset ::
  "env \<Rightarrow> string \<Rightarrow> string option \<Rightarrow> string option \<Rightarrow> state \<Rightarrow> xmlDtd option \<times> state" where
  "xmlCreateIntSubset e name pub sys s =
     (case xmlMalloc e s of
        (None, s1) \<Rightarrow> (None, s1)
      | (Some a, s1) \<Rightarrow> (Some \<lparr>dtd_name = name, ExternalID = pub, SystemID = sys\<rparr>, s1))"

text \<open>
  Lines 1350 to 1373 of \<^verbatim>\<open>xsltApplyStylesheet\<close>, once the result document \<open>res\<close> exists:
  set its character set and encoding, run the transformation from the source document, and
  decide on the internal subset. The condition of line 1363 is the assignment
  \<^verbatim>\<open>ctxt->type = XSLT_OUTPUT_XML\<close>: it stores the enumerator in \<^verbatim>\<open>ctxt->type\<close> and is
  true when the enumerator is not zero.
\<close>

definition set_doc :: "nat \<Rightarrow> (xmlDoc \<Rightarrow> xmlDoc) \<Rightarrow> state \<Rightarrow> state" where
  "set_doc d f s =
     (case docs s d of None \<Rightarrow> s | Some x \<Rightarrow> s\<lparr>docs := (docs s)(d \<mapsto> f x)\<rparr>)"

definition attach_doctype :: "env \<Rightarrow> xsltStylesheet \<Rightarrow> nat \<Rightarrow> state \<Rightarrow> state result" where
  "attach_doctype e st res s =
     (let s1 = s\<lparr>ctxt_type := XSLT_OUTPUT_XML e\<rparr> in
      if XSLT_OUTPUT_XML e \<noteq> 0 \<and> (doctypePublic st \<noteq> None \<or> doctypeSystem st \<noteq> None)
      then (case xmlDocGetRootElement (heap s1) res of
              None \<Rightarrow> Return s1
            | Some root \<Rightarrow>
                (case heap s1 root of
                   None \<Rightarrow> Fault NullDeref
                 | Some rn \<Rightarrow>
                     (case xmlCreateIntSubset e (nname rn) (doctypePublic st)
                             (doctypeSystem st) s1 of
                        (dtd, s2) \<Rightarrow> Return (set_doc res (\<lambda>x. x\<lparr>d_intSubset := dtd\<rparr>) s2))))
      else Return s1)"

definition run_stylesheet ::
  "env \<Rightarrow> callee \<Rightarrow> xsltStylesheet \<Rightarrow> xmlNodePtr \<Rightarrow> nat \<Rightarrow> state \<Rightarrow> (xmlNodePtr \<times> world) result" where
  "run_stylesheet e rec st doc res s =
     (let s1 = set_doc res (\<lambda>x. x\<lparr>d_charset := XML_CHAR_ENCODING_UTF8\<rparr>) s;
          s2 = (case s_encoding st of
                  None \<Rightarrow> s1
                | Some enc \<Rightarrow> set_doc res (\<lambda>x. x\<lparr>d_encoding := Some enc\<rparr>) s1);
          s3 = s2\<lparr>ctxt_output := Some res, ctxt_insert := Some res, ctxt_node := doc\<rparr>
      in case rec (ProcessOneNode (ctxt_node s3)) s3 of
           Fault f \<Rightarrow> Fault f
         | Return s4 \<Rightarrow>
             (case attach_doctype e st res s4 of
                Fault f \<Rightarrow> Fault f
              | Return s5 \<Rightarrow> Return (Some res, xsltFreeTransformContext s5)))"

text \<open>
  \<^verbatim>\<open>xsltApplyStylesheet\<close>. Every \<^verbatim>\<open>goto error\<close> is taken with \<^verbatim>\<open>res == NULL\<close>, so the
  error exit frees the context and returns NULL.
\<close>

definition xsltApplyStylesheet ::
  "env \<Rightarrow> callee \<Rightarrow> xsltStylesheet option \<Rightarrow> xmlNodePtr \<Rightarrow> world \<Rightarrow> (xmlNodePtr \<times> world) result" where
  "xsltApplyStylesheet e rec style doc w =
     (case style of
        None \<Rightarrow> Return (None, w)
      | Some st \<Rightarrow>
          if doc = None then Return (None, w)
          else
            (case xsltNewTransformContext e w of
               Inl w1 \<Rightarrow> Return (None, w1)
             | Inr c0 \<Rightarrow>
                 (case xsltEvalGlobalVariables e (c0\<lparr>ctxt_doc := doc, ctxt_style := Some st\<rparr>) of
                    Fault f \<Rightarrow> Fault f
                  | Return c1 \<Rightarrow>
                      if s_method st \<noteq> None \<and> s_method st \<noteq> Some ''xml'' then
                        if s_method st = Some ''html'' then
                          (case htmlNewDoc e (doctypePublic st) (doctypeSystem st)
                                  (c1\<lparr>ctxt_type := XSLT_OUTPUT_HTML e\<rparr>) of
                             (None, c2) \<Rightarrow> Return (None, xsltFreeTransformContext c2)
                           | (Some res, c2) \<Rightarrow> run_stylesheet e rec st doc res c2)
                        else if s_method st = Some ''text'' then
                          (case xmlNewDoc e (s_version st)
                                  (c1\<lparr>ctxt_type := XSLT_OUTPUT_TEXT e\<rparr>) of
                             (None, c2) \<Rightarrow> Return (None, xsltFreeTransformContext c2)
                           | (Some res, c2) \<Rightarrow> run_stylesheet e rec st doc res c2)
                        else
                          Return (None, xsltFreeTransformContext
                            (xsltGenericError ''xsltApplyStylesheet: insupported method'' c1))
                      else
                        (case xmlNewDoc e (s_version st)
                                (c1\<lparr>ctxt_type := XSLT_OUTPUT_XML e\<rparr>) of
                           (None, c2) \<Rightarrow> Return (None, xsltFreeTransformContext c2)
                         | (Some res, c2) \<Rightarrow> run_stylesheet e rec st doc res c2))))"

section \<open>Tree operations of libxml2\<close>

text \<open>
  \<^verbatim>\<open>cur->next\<close>: the node after \<open>a\<close> in the list of its parent's children.
\<close>

fun next_in :: "nat \<Rightarrow> nat list \<Rightarrow> xmlNodePtr" where
  "next_in a [] = None"
| "next_in a [x] = None"
| "next_in a (x # y # ys) = (if x = a then Some y else next_in a (y # ys))"

definition xml_next :: "(nat \<Rightarrow> xmlNode option) \<Rightarrow> nat \<Rightarrow> xmlNodePtr" where
  "xml_next h a =
     (case h a of
        None \<Rightarrow> None
      | Some n \<Rightarrow>
          (case nparent n of
             None \<Rightarrow> None
           | Some p \<Rightarrow> (case h p of None \<Rightarrow> None | Some pn \<Rightarrow> next_in a (nchildren pn))))"

definition first_child :: "xmlNode \<Rightarrow> xmlNodePtr" where
  "first_child n = (case nchildren n of [] \<Rightarrow> None | c # cs \<Rightarrow> Some c)"

definition set_node :: "nat \<Rightarrow> (xmlNode \<Rightarrow> xmlNode) \<Rightarrow> 'a world_scheme \<Rightarrow> 'a world_scheme" where
  "set_node a f w = (case heap w a of None \<Rightarrow> w | Some n \<Rightarrow> w\<lparr>heap := (heap w)(a \<mapsto> f n)\<rparr>)"

text \<open>
  \<^verbatim>\<open>xmlAddChild\<close> appends \<open>cur\<close> to the children of \<open>parent\<close>; with a NULL argument it
  does nothing. (The merging of adjacent text nodes is not modelled.)
\<close>

definition xmlAddChild :: "xmlNodePtr \<Rightarrow> xmlNodePtr \<Rightarrow> 'a world_scheme \<Rightarrow> 'a world_scheme" where
  "xmlAddChild parent cur w =
     (case parent of
        None \<Rightarrow> w
      | Some p \<Rightarrow>
          (case cur of
             None \<Rightarrow> w
           | Some c \<Rightarrow>
               (case heap w p of
                  None \<Rightarrow> w
                | Some pn \<Rightarrow>
                    set_node c (\<lambda>x. x\<lparr>nparent := Some p, ndoc := ndoc pn\<rparr>)
                      (set_node p (\<lambda>x. x\<lparr>nchildren := nchildren x @ [c]\<rparr>) w))))"

text \<open>
  \<^verbatim>\<open>xmlUnlinkNode\<close> takes the node out of its parent's children; \<^verbatim>\<open>xmlFreeNode\<close>
  releases it.
\<close>

definition xmlUnlinkNode :: "nat \<Rightarrow> 'a world_scheme \<Rightarrow> 'a world_scheme" where
  "xmlUnlinkNode a w =
     (case heap w a of
        None \<Rightarrow> w
      | Some n \<Rightarrow>
          set_node a (\<lambda>x. x\<lparr>nparent := None\<rparr>)
            (case nparent n of
               None \<Rightarrow> w
             | Some p \<Rightarrow> set_node p (\<lambda>x. x\<lparr>nchildren := removeAll a (nchildren x)\<rparr>) w))"

definition xmlFreeNode :: "nat \<Rightarrow> 'a world_scheme \<Rightarrow> 'a world_scheme" where
  "xmlFreeNode a w = w\<lparr>heap := (heap w)(a := None)\<rparr>"

definition new_node :: "xmlElementType \<Rightarrow> string \<Rightarrow> string option \<Rightarrow> xmlNode" where
  "new_node t name content =
     \<lparr>ntype = t, nname = name, ncontent = content, nns = None, nnsDef = [], nproperties = [],
      nchildren = [], nparent = None, ndoc = None\<rparr>"

definition alloc_node :: "env \<Rightarrow> xmlNode \<Rightarrow> state \<Rightarrow> xmlNodePtr \<times> state" where
  "alloc_node e n s =
     (case xmlMalloc e s of
        (None, s1) \<Rightarrow> (None, s1)
      | (Some a, s1) \<Rightarrow> (Some a, s1\<lparr>heap := (heap s1)(a \<mapsto> n)\<rparr>))"

definition xmlNewText :: "env \<Rightarrow> string option \<Rightarrow> state \<Rightarrow> xmlNodePtr \<times> state" where
  "xmlNewText e content = alloc_node e (new_node XML_TEXT_NODE ''text'' content)"

definition xmlNewComment :: "env \<Rightarrow> string option \<Rightarrow> state \<Rightarrow> xmlNodePtr \<times> state" where
  "xmlNewComment e content = alloc_node e (new_node XML_COMMENT_NODE ''comment'' content)"

definition xmlNewPI :: "env \<Rightarrow> string \<Rightarrow> string option \<Rightarrow> state \<Rightarrow> xmlNodePtr \<times> state" where
  "xmlNewPI e name content = alloc_node e (new_node XML_PI_NODE name content)"

text \<open>
  \<^verbatim>\<open>xmlCopyNode(node, 0)\<close>: a copy of the node alone (its kind, name and content), outside
  any tree.
\<close>

definition xmlCopyNode :: "env \<Rightarrow> xmlNode \<Rightarrow> state \<Rightarrow> xmlNodePtr \<times> state" where
  "xmlCopyNode e n = alloc_node e (new_node (ntype n) (nname n) (ncontent n))"

fun set_prop :: "string \<Rightarrow> string \<Rightarrow> (string \<times> string) list \<Rightarrow> (string \<times> string) list" where
  "set_prop k v [] = [(k, v)]"
| "set_prop k v (p # ps) = (if fst p = k then (k, v) # ps else p # set_prop k v ps)"

text \<open>
  \<^verbatim>\<open>xmlSetProp\<close> and \<^verbatim>\<open>xmlSetNsProp\<close> set an attribute of the node (the namespace of an
  attribute is not part of the model); \<^verbatim>\<open>xmlGetNsProp\<close> reads one.
\<close>

definition xmlSetProp :: "xmlNodePtr \<Rightarrow> string \<Rightarrow> string \<Rightarrow> state \<Rightarrow> state" where
  "xmlSetProp node name v s =
     (case node of
        None \<Rightarrow> s
      | Some a \<Rightarrow> set_node a (\<lambda>x. x\<lparr>nproperties := set_prop name v (nproperties x)\<rparr>) s)"

definition xmlGetNsProp :: "(nat \<Rightarrow> xmlNode option) \<Rightarrow> xmlNodePtr \<Rightarrow> string \<Rightarrow> string option" where
  "xmlGetNsProp h node name =
     (case node of
        None \<Rightarrow> None
      | Some a \<Rightarrow> (case h a of None \<Rightarrow> None | Some n \<Rightarrow> map_of (nproperties n) name))"

text \<open>
  \<^verbatim>\<open>xmlNewNs(node, href, prefix)\<close> declares a namespace on the node.
\<close>

definition xmlNewNs :: "env \<Rightarrow> nat \<Rightarrow> string \<Rightarrow> string option \<Rightarrow> state \<Rightarrow> state" where
  "xmlNewNs e a href pre s =
     (case xmlMalloc e s of
        (None, s1) \<Rightarrow> s1
      | (Some b, s1) \<Rightarrow>
          set_node a (\<lambda>x. x\<lparr>nnsDef := nnsDef x @ [\<lparr>ns_prefix = pre, ns_href = href\<rparr>]\<rparr>) s1)"

section \<open>Macros and helpers of libxslt\<close>

text \<open>
  \<^verbatim>\<open>IS_XSLT_ELEM\<close> and \<^verbatim>\<open>IS_XSLT_NAME\<close> (\<^verbatim>\<open>xsltutils.h\<close>): the node is in the XSLT
  namespace; the node has the given local name.
\<close>

definition IS_XSLT_ELEM :: "env \<Rightarrow> (nat \<Rightarrow> xmlNode option) \<Rightarrow> xmlNodePtr \<Rightarrow> bool" where
  "IS_XSLT_ELEM e h n =
     (case n of
        None \<Rightarrow> False
      | Some a \<Rightarrow>
          (case h a of
             None \<Rightarrow> False
           | Some x \<Rightarrow>
               (case nns x of None \<Rightarrow> False | Some nsp \<Rightarrow> ns_href nsp = XSLT_NAMESPACE e)))"

definition IS_XSLT_NAME :: "(nat \<Rightarrow> xmlNode option) \<Rightarrow> xmlNodePtr \<Rightarrow> string \<Rightarrow> bool" where
  "IS_XSLT_NAME h n v =
     (case n of None \<Rightarrow> False | Some a \<Rightarrow> (case h a of None \<Rightarrow> False | Some x \<Rightarrow> nname x = v))"

text \<open>
  Modelled from the spec: \<^verbatim>\<open>xsltIsBlank\<close> is not in \<^verbatim>\<open>transform.c\<close>; a text node is
  ignorable blank when its content is entirely XML whitespace (space, tab, line feed,
  carriage return). A NULL content has no other character and counts as blank.
\<close>

definition IS_BLANK :: "char \<Rightarrow> bool" where
  "IS_BLANK c = (c = CHR 0x20 \<or> c = CHR 0x09 \<or> c = CHR 0x0A \<or> c = CHR 0x0D)"

definition xsltIsBlank :: "string option \<Rightarrow> bool" where
  "xsltIsBlank str = (case str of None \<Rightarrow> True | Some cs \<Rightarrow> list_all IS_BLANK cs)"

definition IS_BLANK_NODE :: "xmlNode \<Rightarrow> bool" where
  "IS_BLANK_NODE n = (ntype n = XML_TEXT_NODE \<and> xsltIsBlank (ncontent n))"

text \<open>
  Modelled from the spec: \<^verbatim>\<open>xsltPushStack\<close> and \<^verbatim>\<open>xsltPopStack\<close> are in
  \<^verbatim>\<open>variables.c\<close>; they push a scope on the variable stack and pop one.
\<close>

definition xsltPushStack :: "state \<Rightarrow> state" where
  "xsltPushStack s = s\<lparr>ctxt_vars := [] # ctxt_vars s\<rparr>"

definition xsltPopStack :: "state \<Rightarrow> state" where
  "xsltPopStack s = s\<lparr>ctxt_vars := tl (ctxt_vars s)\<rparr>"

text \<open>The \<^verbatim>\<open>TODO\<close> macro reports an unimplemented block.\<close>

definition TODO :: "state \<Rightarrow> state" where
  "TODO s = xsltGenericError ''Unimplemented block'' s"

section \<open>Evaluating an expression\<close>

text \<open>
  Four handlers start the same way (lines 800 to 820, 457 to 478, 1117 to 1137 and 1200 to
  1219): create the XPath context of the transformation if there is none, create a parser
  context for the expression, set the context node and evaluate. An allocation that fails
  sends the handler to its \<^verbatim>\<open>error\<close> label: that is the outer \<open>None\<close>. Otherwise the
  result is the popped value, NULL (the inner \<open>None\<close>) when the value stack is empty.
\<close>

definition xpath_ctxt_init :: "env \<Rightarrow> state \<Rightarrow> state" where
  "xpath_ctxt_init e s =
     (case ctxt_xpathCtxt s of
        Some x \<Rightarrow> s
      | None \<Rightarrow>
          (case xmlMalloc e s of
             (None, s1) \<Rightarrow> s1
           | (Some a, s1) \<Rightarrow> s1\<lparr>ctxt_xpathCtxt := Some (xpath_fresh e)\<rparr>))"

definition xpath_select ::
  "env \<Rightarrow> xpath_conv \<Rightarrow> string \<Rightarrow> xmlNodePtr \<Rightarrow> state \<Rightarrow> state \<times> xmlXPathObject option option" where
  "xpath_select e conv prop node s =
     (let s1 = xpath_ctxt_init e s in
      case ctxt_xpathCtxt s1 of
        None \<Rightarrow> (s1, None)
      | Some x0 \<Rightarrow>
          (case xmlMalloc e s1 of
             (None, s2) \<Rightarrow> (s2, None)
           | (Some a, s2) \<Rightarrow>
               (let s3 = s2\<lparr>ctxt_xpathCtxt := Some (x0\<lparr>xp_node := node\<rparr>)\<rparr>
                in (s3, Some (xpath_eval e conv prop s3)))))"

section \<open>The sort stage\<close>

text \<open>
  Modelled from the spec: \<^verbatim>\<open>xsltSortFunction\<close> is in \<^verbatim>\<open>xsltutils.c\<close>; it performs a
  stable sort of the node list in place, using the parallel array of keys, and the order
  chooses the comparator's direction. The comparison of two keys is a parameter.
\<close>

fun sort_insert ::
  "('k \<Rightarrow> 'k \<Rightarrow> bool) \<Rightarrow> 'k \<times> nat \<Rightarrow> ('k \<times> nat) list \<Rightarrow> ('k \<times> nat) list" where
  "sort_insert gt x [] = [x]"
| "sort_insert gt x (y # ys) =
     (if gt (fst x) (fst y) then y # sort_insert gt x ys else x # y # ys)"

definition xsltSortFunction ::
  "env \<Rightarrow> nat list \<Rightarrow> xmlXPathObject option list \<Rightarrow> bool \<Rightarrow> bool \<Rightarrow> nat list" where
  "xsltSortFunction e list results descending number =
     map snd
       (foldr (sort_insert (\<lambda>a b. if descending then sort_key_greater e number b a
                                   else sort_key_greater e number a b))
          (zip results list) [])"

definition sort_data_type :: "string option \<Rightarrow> bool option" where
  "sort_data_type prop =
     (case prop of
        None \<Rightarrow> Some False
      | Some p \<Rightarrow> if p = ''text'' then Some False else if p = ''number'' then Some True else None)"

definition sort_order :: "string option \<Rightarrow> bool option" where
  "sort_order prop =
     (case prop of
        None \<Rightarrow> Some False
      | Some p \<Rightarrow>
          if p = ''ascending'' then Some False
          else if p = ''descending'' then Some True else None)"

definition sort_select :: "env \<Rightarrow> state \<Rightarrow> nat \<Rightarrow> string option" where
  "sort_select e s inst =
     (case xmlGetNsProp (heap s) (Some inst) ''select'' of
        Some p \<Rightarrow> Some p
      | None \<Rightarrow> xmlNodeGetContent e s inst)"

text \<open>
  The slot \<^verbatim>\<open>results[i]\<close>: the value when it has the wanted kind, NULL when it has
  another kind. When the value stack was empty the slot is not written; it is read as NULL
  here.
\<close>

definition sort_slot :: "bool \<Rightarrow> xmlXPathObject option \<Rightarrow> xmlXPathObject option" where
  "sort_slot number res =
     (case res of
        None \<Rightarrow> None
      | Some r \<Rightarrow>
          (if number then (case r of XPATH_NUMBER d \<Rightarrow> Some r | _ \<Rightarrow> None)
           else (case r of XPATH_STRING str \<Rightarrow> Some r | _ \<Rightarrow> None)))"

fun sort_results ::
  "env \<Rightarrow> bool \<Rightarrow> string \<Rightarrow> xmlXPathContext \<Rightarrow> state \<Rightarrow> nat list \<Rightarrow> nat \<Rightarrow> xmlXPathObject option list" where
  "sort_results e number prop x s [] i = []"
| "sort_results e number prop x s (n # ns) i =
     sort_slot number
       (xpath_eval e (if number then ToStringNumber else ToString) prop
          (s\<lparr>ctxt_node := Some n,
             ctxt_xpathCtxt := Some (x\<lparr>proximityPosition := int i + 1\<rparr>)\<rparr>))
     # sort_results e number prop x s ns (Suc i)"

text \<open>
  \<^verbatim>\<open>xsltSort\<close>. The list sorted is \<^verbatim>\<open>ctxt->nodeList\<close>, in place. The loop over the list
  leaves \<^verbatim>\<open>ctxt->node\<close> at the last node and the proximity position at the length.
\<close>

definition xsltSort :: "env \<Rightarrow> xmlNodePtr \<Rightarrow> xmlNodePtr \<Rightarrow> state \<Rightarrow> state result" where
  "xsltSort e node inst s =
     (case inst of
        None \<Rightarrow> Return s
      | Some i \<Rightarrow>
          if node = None then Return s
          else
            (case ctxt_nodeList s of
               None \<Rightarrow> Return s
             | Some list \<Rightarrow>
                 if length list \<le> 1 then Return s
                 else
                   (case sort_data_type (xsltEvalAttrValueTemplate e s inst ''data-type'') of
                      None \<Rightarrow> Return (xsltGenericError ''xsltSort: no support for data-type'' s)
                    | Some number \<Rightarrow>
                        (case sort_order (xsltEvalAttrValueTemplate e s inst ''order'') of
                           None \<Rightarrow> Return (xsltGenericError ''xsltSort: invalid value for order'' s)
                         | Some descending \<Rightarrow>
                             (case sort_select e s i of
                                None \<Rightarrow>
                                  Return (xsltGenericError ''xsltSort: select is not defined'' s)
                              | Some prop \<Rightarrow>
                                  (case xmlMalloc e s of
                                     (None, s1) \<Rightarrow> Return s1
                                   | (Some a, s1) \<Rightarrow>
                                       (case xmlMalloc e s1 of
                                          (None, s2) \<Rightarrow>
                                            Return (xsltGenericError
                                              ''xsltSort: memory allocation failure'' s2)
                                        | (Some b, s2) \<Rightarrow>
                                            (case ctxt_xpathCtxt s2 of
                                               None \<Rightarrow> Fault NullDeref
                                             | Some x \<Rightarrow>
                                                 Return (s2\<lparr>ctxt_node := Some (last list),
                                                   ctxt_xpathCtxt :=
                                                     Some (x\<lparr>proximityPosition := int (length list)\<rparr>),
                                                   ctxt_nodeList :=
                                                     Some (xsltSortFunction e list
                                                       (sort_results e number prop x s2 list 0)
                                                       descending number)\<rparr>)))))))))"

section \<open>The instructions that build one node\<close>

text \<open>\<^verbatim>\<open>xsltComment\<close>.\<close>

definition xsltComment :: "env \<Rightarrow> xmlNodePtr \<Rightarrow> xmlNodePtr \<Rightarrow> state \<Rightarrow> state result" where
  "xsltComment e node inst s =
     (case xsltEvalTemplateString e s node inst of
        Fault f \<Rightarrow> Fault f
      | Return (v, s1) \<Rightarrow>
          (case xmlNewComment e v s1 of
             (comment, s2) \<Rightarrow> Return (xmlAddChild (ctxt_insert s2) comment s2)))"

text \<open>\<^verbatim>\<open>xsltProcessingInstruction\<close>.\<close>

definition xsltProcessingInstruction ::
  "env \<Rightarrow> xmlNodePtr \<Rightarrow> xmlNodePtr \<Rightarrow> state \<Rightarrow> state result" where
  "xsltProcessingInstruction e node inst s =
     (if ctxt_insert s = None then Return s
      else
        (case xsltEvalAttrValueTemplate e s inst ''name'' of
           None \<Rightarrow>
             Return (xsltGenericError ''xslt:processing-instruction : name is missing'' s)
         | Some ncname \<Rightarrow>
             (case xsltEvalTemplateString e s node inst of
                Fault f \<Rightarrow> Fault f
              | Return (v, s1) \<Rightarrow>
                  (case xmlNewPI e ncname v s1 of
                     (pi, s2) \<Rightarrow> Return (xmlAddChild (ctxt_insert s2) pi s2)))))"

text \<open>
  Lines 365 to 370 and 713 to 718: the local name and the prefix of a qualified name.
\<close>

definition split_qname :: "env \<Rightarrow> string \<Rightarrow> string \<times> string option" where
  "split_qname e prop =
     (case xmlSplitQName2 e prop of
        None \<Rightarrow> (prop, None)
      | Some (local, pre) \<Rightarrow> (local, Some pre))"

text \<open>
  \<^verbatim>\<open>xsltAttribute\<close>. The first two tests (lines 345 to 351) return before anything else is
  read: with no insertion point, silently; with an insertion point that has a child, after
  the report.
\<close>

definition xsltAttribute :: "env \<Rightarrow> xmlNodePtr \<Rightarrow> xmlNodePtr \<Rightarrow> state \<Rightarrow> state result" where
  "xsltAttribute e node inst s =
     (case ctxt_insert s of
        None \<Rightarrow> Return s
      | Some ins \<Rightarrow>
          (case heap s ins of
             None \<Rightarrow> Fault NullDeref
           | Some insn \<Rightarrow>
               if nchildren insn \<noteq> []
               then Return (xsltGenericError ''xslt:attribute : node has already children'' s)
               else if xsltEvalAttrValueTemplate e s inst ''namespace'' \<noteq> None
               then Return (TODO s)
               else
                 (case xsltEvalAttrValueTemplate e s inst ''name'' of
                    None \<Rightarrow> Return (xsltGenericError ''xslt:attribute : name is missing'' s)
                  | Some prop \<Rightarrow>
                      (let ncname = fst (split_qname e prop);
                           prefix = snd (split_qname e prop)
                       in if ncname = ''xmlns''
                          then Return (xsltGenericError ''xslt:attribute : xmlns forbidden'' s)
                          else
                            (let s1 = (case prefix of
                                         None \<Rightarrow> s
                                       | Some pre \<Rightarrow>
                                           (case xmlSearchNs e s (Some ins) pre of
                                              None \<Rightarrow>
                                                xsltGenericError
                                                  ''no namespace bound to prefix'' s
                                            | Some found \<Rightarrow> s))
                             in case xsltEvalTemplateString e s1 node inst of
                                  Fault f \<Rightarrow> Fault f
                                | Return (v, s2) \<Rightarrow>
                                    Return (xmlSetProp (ctxt_insert s2) ncname
                                      (case v of None \<Rightarrow> [] | Some str \<Rightarrow> str) s2))))))"

text \<open>\<^verbatim>\<open>xsltValueOf\<close>.\<close>

definition value_of_escaping :: "string option \<Rightarrow> state \<Rightarrow> state" where
  "value_of_escaping prop s =
     (case prop of
        None \<Rightarrow> s
      | Some p \<Rightarrow>
          if p = ''yes'' then TODO s
          else if p = ''no'' then s
          else xsltGenericError ''invalud value for disable-output-escaping'' s)"

definition xsltValueOf :: "env \<Rightarrow> xmlNodePtr \<Rightarrow> xmlNodePtr \<Rightarrow> state \<Rightarrow> state result" where
  "xsltValueOf e node inst s =
     (if node = None \<or> inst = None then Return s
      else
        (let s0 = value_of_escaping (xmlGetNsProp (heap s) inst ''disable-output-escaping'') s
         in case xmlGetNsProp (heap s0) inst ''select'' of
              None \<Rightarrow> Return (xsltGenericError ''xsltValueOf: select is not defined'' s0)
            | Some prop \<Rightarrow>
                (case xpath_select e ToString prop node s0 of
                   (s1, None) \<Rightarrow> Return s1
                 | (s1, Some res) \<Rightarrow>
                     (case res of
                        Some (XPATH_STRING str) \<Rightarrow>
                          (case xmlNewText e (Some str) s1 of
                             (None, s2) \<Rightarrow>
                               Return (xsltGenericError
                                 ''xsltDefaultProcessOneNode: text copy failed'' s2)
                           | (Some copy, s2) \<Rightarrow>
                               Return (xmlAddChild (ctxt_insert s2) (Some copy) s2))
                      | _ \<Rightarrow>
                          Return (xsltGenericError
                            ''xsltDefaultProcessOneNode: text copy failed'' s1)))))"

text \<open>
  \<^verbatim>\<open>xsltCopyNode\<close>. Line 524 writes \<^verbatim>\<open>copy->doc\<close> before the test of line 525, so a
  failed copy is a NULL dereference.
\<close>

definition xsltCopyNode :: "env \<Rightarrow> nat \<Rightarrow> nat \<Rightarrow> state \<Rightarrow> (xmlNodePtr \<times> state) result" where
  "xsltCopyNode e node ins s =
     (case heap s node of
        None \<Rightarrow> Fault NullDeref
      | Some n \<Rightarrow>
          (case xmlCopyNode e n s of
             (None, s1) \<Rightarrow> Fault NullDeref
           | (Some c, s1) \<Rightarrow>
               (case heap s1 ins of
                  None \<Rightarrow> Fault NullDeref
                | Some insn \<Rightarrow>
                    (let s2 = xmlAddChild (Some ins) (Some c)
                                (set_node c (\<lambda>x. x\<lparr>ndoc := ctxt_output s1\<rparr>) s1);
                         s3 = (if nnsDef n \<noteq> [] then set_node c (\<lambda>x. x\<lparr>nnsDef := nnsDef n\<rparr>) s2
                               else s2)
                     in case nns n of
                          None \<Rightarrow> Return (Some c, s3)
                        | Some nsp \<Rightarrow>
                            if ntype insn = XML_ELEMENT_NODE
                               \<and> (case nns insn of
                                     None \<Rightarrow> False
                                   | Some ins_ns \<Rightarrow> ns_href ins_ns = ns_href nsp)
                            then Return (Some c, set_node c (\<lambda>x. x\<lparr>nns := nns insn\<rparr>) s3)
                            else
                              (case xmlSearchNsByHref e s3 c (ns_href nsp) of
                                 Some found \<Rightarrow>
                                   Return (Some c, set_node c (\<lambda>x. x\<lparr>nns := Some found\<rparr>) s3)
                               | None \<Rightarrow>
                                   Return (Some c,
                                     xmlNewNs e c (ns_href nsp) (ns_prefix nsp) s3))))))"

section \<open>The default rule\<close>

text \<open>
  Lines 626 to 647: the decision of the default rule's child walk. It is taken once, for
  the first blank text child met (\<^verbatim>\<open>strip_spaces\<close> starts at \<open>-1\<close>), from the entry of the
  parent's name and then, when that gave neither \<^verbatim>\<open>strip\<close> nor \<^verbatim>\<open>preserve\<close>, from the
  entry of \<^verbatim>\<open>*\<close>.
\<close>

definition default_strip_spaces :: "(string \<Rightarrow> string option) \<Rightarrow> string \<Rightarrow> int \<Rightarrow> int" where
  "default_strip_spaces tbl pname strip_spaces =
     (if strip_spaces = - 1 then
        (let ss1 = (case tbl pname of
                      None \<Rightarrow> - 1
                    | Some v \<Rightarrow>
                        if v = ''preserve'' then 0 else if v = ''strip'' then 1 else - 1)
         in if ss1 = - 1 then (if tbl ''*'' = Some ''strip'' then 1 else 0) else ss1)
      else strip_spaces)"

text \<open>Lines 655 to 661 (and 600 to 606): copy the node under the insertion point.\<close>

definition copy_child :: "env \<Rightarrow> xmlNode \<Rightarrow> state \<Rightarrow> state" where
  "copy_child e n s =
     (case xmlCopyNode e n s of
        (None, s1) \<Rightarrow> xsltGenericError ''xsltDefaultProcessOneNode: text copy failed'' s1
      | (Some c, s1) \<Rightarrow> xmlAddChild (ctxt_insert s1) (Some c) s1)"

text \<open>
  One turn of the \<^verbatim>\<open>switch\<close> of lines 613 to 670 on the child \<open>a\<close>, whose node is \<open>n\<close>.
  The result says whether the child is marked in \<^verbatim>\<open>delete\<close>, and gives the new
  \<^verbatim>\<open>strip_spaces\<close> and state.
\<close>

definition default_child ::
  "env \<Rightarrow> callee \<Rightarrow> nat \<Rightarrow> xmlNode \<Rightarrow> int \<Rightarrow> state \<Rightarrow> (bool \<times> int \<times> state) result" where
  "default_child e rec a n ss s =
     (if ntype n = XML_DOCUMENT_NODE \<or> ntype n = XML_HTML_DOCUMENT_NODE
         \<or> ntype n = XML_ELEMENT_NODE
      then (case rec (ProcessOneNode (Some a)) s of
              Fault f \<Rightarrow> Fault f
            | Return s1 \<Rightarrow> Return (False, ss, s1))
      else if ntype n = XML_TEXT_NODE then
        (case nparent n of
           None \<Rightarrow> Return (False, ss, copy_child e n s)
         | Some p \<Rightarrow>
             if IS_BLANK_NODE n then
               (case ctxt_style s of
                  None \<Rightarrow> Fault NullDeref
                | Some st \<Rightarrow>
                    (case stripSpaces st of
                       None \<Rightarrow> Return (False, ss, copy_child e n s)
                     | Some tbl \<Rightarrow>
                         (case (if ss = - 1
                                then (case heap s p of
                                        None \<Rightarrow> None
                                      | Some pn \<Rightarrow> Some (default_strip_spaces tbl (nname pn) ss))
                                else Some ss) of
                            None \<Rightarrow> Fault NullDeref
                          | Some ss1 \<Rightarrow>
                              if ss1 = 1 then Return (True, ss1, s)
                              else Return (False, ss1, copy_child e n s))))
             else Return (False, ss, copy_child e n s))
      else if ntype n = XML_CDATA_SECTION_NODE then Return (False, ss, copy_child e n s)
      else Return (True, ss, s))"

text \<open>
  The loop of lines 612 to 681. The next child is read (\<^verbatim>\<open>node = node->next\<close>) after the
  child has been handled and before a marked child is unlinked and freed.
\<close>

fun default_walk :: "env \<Rightarrow> callee \<Rightarrow> nat \<Rightarrow> xmlNodePtr \<Rightarrow> int \<Rightarrow> state \<Rightarrow> state result" where
  "default_walk e rec k None ss s = Return s"
| "default_walk e rec 0 (Some a) ss s = Fault OutOfFuel"
| "default_walk e rec (Suc k) (Some a) ss s =
     (case heap s a of
        None \<Rightarrow> Fault NullDeref
      | Some n \<Rightarrow>
          (case default_child e rec a n ss s of
             Fault f \<Rightarrow> Fault f
           | Return (del, ss1, s1) \<Rightarrow>
               default_walk e rec k (xml_next (heap s1) a) ss1
                 (if del then xmlFreeNode a (xmlUnlinkNode a s1) else s1)))"

text \<open>\<^verbatim>\<open>xsltDefaultProcessOneNode\<close>.\<close>

definition xsltDefaultProcessOneNode ::
  "env \<Rightarrow> callee \<Rightarrow> nat \<Rightarrow> xmlNodePtr \<Rightarrow> state \<Rightarrow> state result" where
  "xsltDefaultProcessOneNode e rec fuel node s =
     (case node of
        None \<Rightarrow> Fault NullDeref
      | Some a \<Rightarrow>
          (case heap s a of
             None \<Rightarrow> Fault NullDeref
           | Some n \<Rightarrow>
               if ntype n = XML_DOCUMENT_NODE \<or> ntype n = XML_HTML_DOCUMENT_NODE
                  \<or> ntype n = XML_ELEMENT_NODE
               then default_walk e rec fuel (first_child n) (- 1) s
               else if ntype n = XML_TEXT_NODE then Return (copy_child e n s)
               else Return s))"

section \<open>call-template\<close>

text \<open>
  The loop of lines 735 to 753 over the children of the instruction. (The stylesheet tree is
  not changed by the transformation, so the loop runs over the children as they are when it
  starts.)
\<close>

fun call_template_params :: "env \<Rightarrow> nat list \<Rightarrow> bool \<Rightarrow> state \<Rightarrow> (bool \<times> state) result" where
  "call_template_params e [] has_param s = Return (has_param, s)"
| "call_template_params e (c # cs) has_param s =
     (if IS_XSLT_ELEM e (heap s) (Some c) then
        (if IS_XSLT_NAME (heap s) (Some c) ''with-param'' then
           (case xsltParseStylesheetParam e (if has_param then s else xsltPushStack s) c of
              Fault f \<Rightarrow> Fault f
            | Return s1 \<Rightarrow> call_template_params e cs True s1)
         else call_template_params e cs has_param
                (xsltGenericError ''xslt:call-template: misplaced xslt element'' s))
      else call_template_params e cs has_param
             (xsltGenericError ''xslt:call-template: misplaced element'' s))"

text \<open>
  \<^verbatim>\<open>xsltCallTemplate\<close>. When no template has the name, line 732 reads \<^verbatim>\<open>cur->name\<close> for
  the message, and \<^verbatim>\<open>cur\<close> has not been assigned yet: the read goes through whatever the
  pointer holds.
\<close>

definition xsltCallTemplate :: "env \<Rightarrow> callee \<Rightarrow> xmlNodePtr \<Rightarrow> xmlNodePtr \<Rightarrow> state \<Rightarrow> state result" where
  "xsltCallTemplate e rec node inst s =
     (case ctxt_insert s of
        None \<Rightarrow> Return s
      | Some ins \<Rightarrow>
          (case xmlGetNsProp (heap s) inst ''name'' of
             None \<Rightarrow> Return (xsltGenericError ''xslt:call-template : name is missing'' s)
           | Some prop \<Rightarrow>
               (let ncname = fst (split_qname e prop);
                    prefix = snd (split_qname e prop);
                    ns = (case prefix of
                            None \<Rightarrow> None
                          | Some pre \<Rightarrow> xmlSearchNs e s (Some ins) pre);
                    s1 = (if prefix \<noteq> None \<and> ns = None
                          then xsltGenericError ''no namespace bound to prefix'' s else s)
                in case xsltFindTemplate e (ctxt_style s1) ncname (map_option ns_href ns) of
                     None \<Rightarrow>
                       (case uninit_ptr e of
                          None \<Rightarrow> Fault NullDeref
                        | Some c \<Rightarrow>
                            (case heap s1 c of
                               None \<Rightarrow> Fault NullDeref
                             | Some cn \<Rightarrow>
                                 Return (xsltGenericError
                                   (''xslt:call-template: template '' @ nname cn @ '' not found'')
                                   s1)))
                   | Some content \<Rightarrow>
                       (case inst of
                          None \<Rightarrow> Fault NullDeref
                        | Some i \<Rightarrow>
                            (case heap s1 i of
                               None \<Rightarrow> Fault NullDeref
                             | Some instn \<Rightarrow>
                                 (case call_template_params e (nchildren instn) False s1 of
                                    Fault f \<Rightarrow> Fault f
                                  | Return (has_param, s2) \<Rightarrow>
                                      (case rec (ApplyOneTemplate node content) s2 of
                                         Fault f \<Rightarrow> Fault f
                                       | Return s3 \<Rightarrow>
                                           Return (if has_param then xsltPopStack s3
                                                   else s3))))))))"

section \<open>Iterating over a node list: apply-templates and for-each\<close>

text \<open>
  Lines 900 to 903 and 1248 to 1251: run the leading \<^verbatim>\<open>xsl:sort\<close> children, and return the
  first child that is not one (\<^verbatim>\<open>replacement\<close>).
\<close>

fun skip_sorts :: "env \<Rightarrow> xmlNodePtr \<Rightarrow> nat list \<Rightarrow> state \<Rightarrow> (xmlNodePtr \<times> state) result" where
  "skip_sorts e node [] s = Return (None, s)"
| "skip_sorts e node (r # rs) s =
     (if IS_XSLT_ELEM e (heap s) (Some r) \<and> IS_XSLT_NAME (heap s) (Some r) ''sort'' then
        (case xsltSort e node (Some r) s of
           Fault f \<Rightarrow> Fault f
         | Return s1 \<Rightarrow> skip_sorts e node rs s1)
      else Return (Some r, s))"

text \<open>
  The state in which iteration \<open>i\<close> runs its body (lines 906, 907 and 1254, 1255):
  \<^verbatim>\<open>ctxt->node\<close> is the node of the list at \<open>i\<close> and the proximity position is \<open>i + 1\<close>.
\<close>

definition iteration_entry :: "nat \<Rightarrow> nat \<Rightarrow> xmlXPathContext \<Rightarrow> state \<Rightarrow> state" where
  "iteration_entry n i x s =
     s\<lparr>ctxt_node := Some n, ctxt_xpathCtxt := Some (x\<lparr>proximityPosition := int i + 1\<rparr>)\<rparr>"

text \<open>
  The loops of lines 905 to 909 and 1253 to 1257, from index \<open>i\<close> on; the first list is
  what remains of \<^verbatim>\<open>list->nodeTab\<close> from \<open>i\<close>. \<open>body n\<close> is the call made for the node \<open>n\<close>.
\<close>

fun iterate_nodes :: "callee \<Rightarrow> (nat \<Rightarrow> call) \<Rightarrow> nat list \<Rightarrow> nat \<Rightarrow> state \<Rightarrow> state result" where
  "iterate_nodes rec body [] i s = Return s"
| "iterate_nodes rec body (n # ns) i s =
     (case ctxt_xpathCtxt s of
        None \<Rightarrow> Fault NullDeref
      | Some x \<Rightarrow>
          (case rec (body n) (iteration_entry n i x s) of
             Fault f \<Rightarrow> Fault f
           | Return s1 \<Rightarrow> iterate_nodes rec body ns (Suc i) s1))"

text \<open>
  Lines 885 to 912 and 1233 to 1260, shared by the two instructions: with the selected list
  (a NULL list is dereferenced by the trace message), save the node list, the context size
  and the proximity position, install the list and its length, run the sorts (which sort
  \<^verbatim>\<open>ctxt->nodeList\<close>, the same list, in place), iterate, and restore what was saved.
\<close>

definition sorted_list :: "nat list \<Rightarrow> state \<Rightarrow> nat list" where
  "sorted_list l s = (case ctxt_nodeList s of None \<Rightarrow> l | Some l2 \<Rightarrow> l2)"

definition install_list :: "nat list \<Rightarrow> xmlXPathContext \<Rightarrow> state \<Rightarrow> state" where
  "install_list l x s =
     s\<lparr>ctxt_nodeList := Some l, ctxt_xpathCtxt := Some (x\<lparr>contextSize := int (length l)\<rparr>)\<rparr>"

definition over_node_list ::
  "env \<Rightarrow> callee \<Rightarrow> (xmlNodePtr \<Rightarrow> nat \<Rightarrow> call) \<Rightarrow> xmlNodePtr \<Rightarrow> nat \<Rightarrow> nat list option
     \<Rightarrow> state \<Rightarrow> state result" where
  "over_node_list e rec body node inst list s =
     (case list of
        None \<Rightarrow> Fault NullDeref
      | Some l \<Rightarrow>
          (case ctxt_xpathCtxt s of
             None \<Rightarrow> Fault NullDeref
           | Some x \<Rightarrow>
               (case heap s inst of
                  None \<Rightarrow> Fault NullDeref
                | Some instn \<Rightarrow>
                    (case skip_sorts e node (nchildren instn) (install_list l x s) of
                       Fault f \<Rightarrow> Fault f
                     | Return (replacement, s2) \<Rightarrow>
                         (case iterate_nodes rec (body replacement) (sorted_list l s2) 0 s2 of
                            Fault f \<Rightarrow> Fault f
                          | Return s3 \<Rightarrow>
                              (case ctxt_xpathCtxt s3 of
                                 None \<Rightarrow> Fault NullDeref
                               | Some x3 \<Rightarrow>
                                   Return (s3\<lparr>ctxt_nodeList := ctxt_nodeList s,
                                     ctxt_xpathCtxt :=
                                       Some (x3\<lparr>contextSize := contextSize x,
                                                proximityPosition := proximityPosition x\<rparr>)\<rparr>)))))))"

text \<open>
  Lines 848 to 855: the decision of \<^verbatim>\<open>xsltApplyTemplates\<close> on a blank text child, from the
  entry of the parent's name alone.
\<close>

definition apply_templates_strip :: "(string \<Rightarrow> string option) \<Rightarrow> string \<Rightarrow> bool" where
  "apply_templates_strip tbl pname = (tbl pname = Some ''strip'')"

definition xmlXPathNodeSetAdd :: "nat list option \<Rightarrow> nat \<Rightarrow> nat list option" where
  "xmlXPathNodeSetAdd list c =
     (case list of None \<Rightarrow> None | Some l \<Rightarrow> Some (if c \<in> set l then l else l @ [c]))"

text \<open>
  One turn of the \<^verbatim>\<open>switch\<close> of lines 840 to 871: is the child marked in \<^verbatim>\<open>delete\<close>
  (otherwise it is added to the list).
\<close>

definition apply_templates_child :: "xmlNode \<Rightarrow> state \<Rightarrow> bool result" where
  "apply_templates_child n s =
     (if ntype n = XML_TEXT_NODE then
        (case nparent n of
           None \<Rightarrow> Return False
         | Some p \<Rightarrow>
             if IS_BLANK_NODE n then
               (case ctxt_style s of
                  None \<Rightarrow> Fault NullDeref
                | Some st \<Rightarrow>
                    (case stripSpaces st of
                       None \<Rightarrow> Return False
                     | Some tbl \<Rightarrow>
                         (case heap s p of
                            None \<Rightarrow> Fault NullDeref
                          | Some pn \<Rightarrow> Return (apply_templates_strip tbl (nname pn)))))
             else Return False)
      else if ntype n = XML_DOCUMENT_NODE \<or> ntype n = XML_HTML_DOCUMENT_NODE
              \<or> ntype n = XML_ELEMENT_NODE \<or> ntype n = XML_CDATA_SECTION_NODE
      then Return False
      else Return True)"

text \<open>
  The loop of lines 838 to 882 over the children of the current node. Only the child in
  hand is ever unlinked, after the loop has moved on, so the loop meets the children as they
  are when it starts.
\<close>

fun apply_templates_children ::
  "nat list \<Rightarrow> nat list option \<Rightarrow> state \<Rightarrow> (nat list option \<times> state) result" where
  "apply_templates_children [] list s = Return (list, s)"
| "apply_templates_children (c # cs) list s =
     (case heap s c of
        None \<Rightarrow> Fault NullDeref
      | Some cn \<Rightarrow>
          (case apply_templates_child cn s of
             Fault f \<Rightarrow> Fault f
           | Return del \<Rightarrow>
               if del then apply_templates_children cs list (xmlFreeNode c (xmlUnlinkNode c s))
               else apply_templates_children cs (xmlXPathNodeSetAdd list c) s))"

text \<open>\<^verbatim>\<open>xsltApplyTemplates\<close>.\<close>

definition xsltApplyTemplates :: "env \<Rightarrow> callee \<Rightarrow> xmlNodePtr \<Rightarrow> xmlNodePtr \<Rightarrow> state \<Rightarrow> state result" where
  "xsltApplyTemplates e rec node inst s =
     (case node of
        None \<Rightarrow> Return s
      | Some nd \<Rightarrow>
          (case inst of
             None \<Rightarrow> Return s
           | Some i \<Rightarrow>
               (case heap s nd of
                  None \<Rightarrow> Fault NullDeref
                | Some n \<Rightarrow>
                    (case xmlGetNsProp (heap s) inst ''select'' of
                       Some prop \<Rightarrow>
                         (case xpath_select e AsIs prop node s of
                            (s1, None) \<Rightarrow> Return s1
                          | (s1, Some res) \<Rightarrow>
                              (case res of
                                 None \<Rightarrow>
                                   over_node_list e rec (\<lambda>r m. ProcessOneNode (Some m))
                                     node i None s1
                               | Some obj \<Rightarrow>
                                   (case obj of
                                      XPATH_NODESET l \<Rightarrow>
                                        over_node_list e rec (\<lambda>r m. ProcessOneNode (Some m))
                                          node i l s1
                                    | _ \<Rightarrow> Return s1)))
                     | None \<Rightarrow>
                         (case xmlMalloc e s of
                            (m, s1) \<Rightarrow>
                              (case apply_templates_children (nchildren n)
                                      (case m of None \<Rightarrow> None | Some a \<Rightarrow> Some []) s1 of
                                 Fault f \<Rightarrow> Fault f
                               | Return (l, s2) \<Rightarrow>
                                   over_node_list e rec (\<lambda>r m. ProcessOneNode (Some m))
                                     node i l s2))))))"

text \<open>\<^verbatim>\<open>xsltForEach\<close>.\<close>

definition xsltForEach :: "env \<Rightarrow> callee \<Rightarrow> xmlNodePtr \<Rightarrow> xmlNodePtr \<Rightarrow> state \<Rightarrow> state result" where
  "xsltForEach e rec node inst s =
     (case node of
        None \<Rightarrow> Return s
      | Some nd \<Rightarrow>
          (case inst of
             None \<Rightarrow> Return s
           | Some i \<Rightarrow>
               (case xmlGetNsProp (heap s) inst ''select'' of
                  None \<Rightarrow> Return (xsltGenericError ''xsltForEach: select is not defined'' s)
                | Some prop \<Rightarrow>
                    (case xpath_select e AsIs prop node s of
                       (s1, None) \<Rightarrow> Return s1
                     | (s1, Some res) \<Rightarrow>
                         (case res of
                            None \<Rightarrow>
                              over_node_list e rec (\<lambda>r m. ApplyOneTemplate (Some m) r)
                                node i None s1
                          | Some obj \<Rightarrow>
                              (case obj of
                                 XPATH_NODESET l \<Rightarrow>
                                   over_node_list e rec (\<lambda>r m. ApplyOneTemplate (Some m) r)
                                     node i l s1
                               | _ \<Rightarrow> Return s1))))))"

section \<open>if\<close>

text \<open>
  Lines 1101 and 1139 to 1149: \<^verbatim>\<open>doit\<close> starts at 1; a boolean result replaces it, a
  result of another kind sends the handler to its \<^verbatim>\<open>error\<close> label (here \<open>None\<close>), and
  with no result \<^verbatim>\<open>doit\<close> keeps its initial value.
\<close>

definition if_doit :: "xmlXPathObject option \<Rightarrow> bool option" where
  "if_doit res =
     (case res of
        None \<Rightarrow> Some True
      | Some obj \<Rightarrow> (case obj of XPATH_BOOLEAN b \<Rightarrow> Some b | _ \<Rightarrow> None))"

text \<open>\<^verbatim>\<open>xsltIf\<close>.\<close>

definition xsltIf :: "env \<Rightarrow> callee \<Rightarrow> xmlNodePtr \<Rightarrow> xmlNodePtr \<Rightarrow> state \<Rightarrow> state result" where
  "xsltIf e rec node inst s =
     (case node of
        None \<Rightarrow> Return s
      | Some nd \<Rightarrow>
          (case inst of
             None \<Rightarrow> Return s
           | Some i \<Rightarrow>
               (case xmlGetNsProp (heap s) inst ''test'' of
                  None \<Rightarrow> Return (xsltGenericError ''xsltIf: test is not defined'' s)
                | Some prop \<Rightarrow>
                    (case xpath_select e ToBoolean prop node s of
                       (s1, None) \<Rightarrow> Return s1
                     | (s1, Some res) \<Rightarrow>
                         (case if_doit res of
                            None \<Rightarrow> Return s1
                          | Some doit \<Rightarrow>
                              if doit then
                                (case heap s1 i of
                                   None \<Rightarrow> Fault NullDeref
                                 | Some instn \<Rightarrow>
                                     rec (ApplyOneTemplate (ctxt_node s1) (first_child instn)) s1)
                              else Return s1)))))"

section \<open>Walking a template body\<close>

text \<open>
  The dispatch of lines 957 to 1017 on an element of the XSLT namespace. The result gives the
  new value of \<^verbatim>\<open>has_variables\<close>. The branch of \<^verbatim>\<open>call-template\<close> does not set
  \<^verbatim>\<open>ctxt->insert\<close>.
\<close>

definition run_instruction ::
  "callee \<Rightarrow> call \<Rightarrow> xmlNodePtr \<Rightarrow> xmlNodePtr \<Rightarrow> bool \<Rightarrow> state \<Rightarrow> (bool \<times> state) result" where
  "run_instruction rec c ins oldInsert has_variables s =
     (case rec c (s\<lparr>ctxt_insert := ins\<rparr>) of
        Fault f \<Rightarrow> Fault f
      | Return s1 \<Rightarrow> Return (has_variables, s1\<lparr>ctxt_insert := oldInsert\<rparr>))"

definition xslt_instruction ::
  "env \<Rightarrow> callee \<Rightarrow> xmlNodePtr \<Rightarrow> nat \<Rightarrow> xmlNodePtr \<Rightarrow> xmlNodePtr \<Rightarrow> bool \<Rightarrow> state
     \<Rightarrow> (bool \<times> state) result" where
  "xslt_instruction e rec node cur ins oldInsert has_variables s =
     (let h = heap s; c = Some cur in
      if IS_XSLT_NAME h c ''apply-templates''
      then run_instruction rec (ApplyTemplates node c) ins oldInsert has_variables s
      else if IS_XSLT_NAME h c ''value-of''
      then run_instruction rec (ValueOf node c) ins oldInsert has_variables s
      else if IS_XSLT_NAME h c ''if''
      then run_instruction rec (If node c) ins oldInsert has_variables s
      else if IS_XSLT_NAME h c ''for-each''
      then run_instruction rec (ForEach node c) ins oldInsert has_variables s
      else if IS_XSLT_NAME h c ''attribute''
      then run_instruction rec (Attribute node c) ins oldInsert has_variables s
      else if IS_XSLT_NAME h c ''comment''
      then run_instruction rec (Comment node c) ins oldInsert has_variables s
      else if IS_XSLT_NAME h c ''processing-instruction''
      then run_instruction rec (ProcessingInstruction node c) ins oldInsert has_variables s
      else if IS_XSLT_NAME h c ''variable'' then
        (case xsltParseStylesheetVariable e
                (if has_variables then s else xsltPushStack s) cur of
           Fault f \<Rightarrow> Fault f
         | Return s1 \<Rightarrow> Return (True, s1))
      else if IS_XSLT_NAME h c ''param'' then
        (case xsltParseStylesheetParam e
                (if has_variables then s else xsltPushStack s) cur of
           Fault f \<Rightarrow> Fault f
         | Return s1 \<Rightarrow> Return (True, s1))
      else if IS_XSLT_NAME h c ''call-template'' then
        (case rec (CallTemplate node c) (if has_variables then s else xsltPushStack s) of
           Fault f \<Rightarrow> Fault f
         | Return s1 \<Rightarrow> Return (True, s1))
      else Return (has_variables, TODO (xsltGenericError ''xsltApplyOneTemplate: found xslt'' s)))"

text \<open>
  Lines 957 to 1048 for the body node \<open>cur\<close>, with the insertion point \<open>ins\<close>. The result
  says whether the children of \<open>cur\<close> are to be visited (an XSLT element goes to
  \<^verbatim>\<open>skip_children\<close>), and gives the new values of \<^verbatim>\<open>copy\<close> and \<^verbatim>\<open>has_variables\<close>. A
  node that is neither an XSLT element, nor a text, nor an element leaves \<^verbatim>\<open>copy\<close> as it
  was.
\<close>

definition template_step ::
  "env \<Rightarrow> callee \<Rightarrow> xmlNodePtr \<Rightarrow> xmlNodePtr \<Rightarrow> nat \<Rightarrow> nat \<Rightarrow> xmlNodePtr \<Rightarrow> bool \<Rightarrow> state
     \<Rightarrow> (bool \<times> xmlNodePtr \<times> bool \<times> state) result" where
  "template_step e rec node oldInsert cur ins copy has_variables s =
     (case heap s cur of
        None \<Rightarrow> Fault NullDeref
      | Some cn \<Rightarrow>
          if IS_XSLT_ELEM e (heap s) (Some cur) then
            (case xslt_instruction e rec node cur (Some ins) oldInsert has_variables s of
               Fault f \<Rightarrow> Fault f
             | Return (hv, s1) \<Rightarrow> Return (False, copy, hv, s1))
          else if ntype cn = XML_TEXT_NODE then
            (case xmlCopyNode e cn s of
               (None, s1) \<Rightarrow>
                 Return (True, None, has_variables,
                   xsltGenericError ''xsltApplyOneTemplate: text copy failed'' s1)
             | (Some c, s1) \<Rightarrow>
                 Return (True, Some c, has_variables, xmlAddChild (Some ins) (Some c) s1))
          else if ntype cn = XML_ELEMENT_NODE then
            (case xsltCopyNode e cur ins s of
               Fault f \<Rightarrow> Fault f
             | Return (cp, s1) \<Rightarrow>
                 (case cp of
                    None \<Rightarrow> Fault NullDeref
                  | Some c \<Rightarrow>
                      Return (True, Some c, has_variables,
                        if nproperties cn \<noteq> []
                        then set_node c (\<lambda>x. x\<lparr>nproperties :=
                               xsltAttrListTemplateProcess e s1 c (nproperties cn)\<rparr>) s1
                        else s1)))
          else Return (True, copy, has_variables, s))"

text \<open>
  The \<^verbatim>\<open>do\<close> loop of lines 1067 to 1080: climb from \<open>cur\<close> and from the insertion point
  together, until a node with a next sibling is found (the walk goes on there), or the
  parent of the body is reached or there is no parent (the walk is over).
\<close>

fun unwind ::
  "(nat \<Rightarrow> xmlNode option) \<Rightarrow> nat \<Rightarrow> nat \<Rightarrow> nat \<Rightarrow> xmlNodePtr \<Rightarrow> (xmlNodePtr \<times> xmlNodePtr) result" where
  "unwind h list 0 cur ins = Fault OutOfFuel"
| "unwind h list (Suc k) cur ins =
     (case h cur of
        None \<Rightarrow> Fault NullDeref
      | Some cn \<Rightarrow>
          (case ins of
             None \<Rightarrow> Fault NullDeref
           | Some i \<Rightarrow>
               (case h i of
                  None \<Rightarrow> Fault NullDeref
                | Some inode \<Rightarrow>
                    (case nparent cn of
                       None \<Rightarrow> Return (None, nparent inode)
                     | Some c \<Rightarrow>
                         (case h list of
                            None \<Rightarrow> Fault NullDeref
                          | Some ln \<Rightarrow>
                              if nparent ln = Some c then Return (None, nparent inode)
                              else
                                (case xml_next h c of
                                   Some nx \<Rightarrow> Return (Some nx, nparent inode)
                                 | None \<Rightarrow> unwind h list k c (nparent inode)))))))"

text \<open>
  Lines 1053 to 1080: where the walk goes after \<open>cur\<close>: into its children (then the
  insertion point becomes \<^verbatim>\<open>copy\<close> when \<^verbatim>\<open>copy\<close> is not NULL), to its next sibling, or up.
  The first component of the result is the next \<open>cur\<close>, NULL when the walk is over.
\<close>

definition template_skip ::
  "(nat \<Rightarrow> xmlNode option) \<Rightarrow> nat \<Rightarrow> nat \<Rightarrow> nat \<Rightarrow> xmlNodePtr \<Rightarrow> (xmlNodePtr \<times> xmlNodePtr) result" where
  "template_skip h list k cur ins =
     (case xml_next h cur of
        Some nx \<Rightarrow> Return (Some nx, ins)
      | None \<Rightarrow> unwind h list k cur ins)"

definition template_next ::
  "(nat \<Rightarrow> xmlNode option) \<Rightarrow> nat \<Rightarrow> nat \<Rightarrow> bool \<Rightarrow> nat \<Rightarrow> xmlNodePtr \<Rightarrow> xmlNodePtr
     \<Rightarrow> (xmlNodePtr \<times> xmlNodePtr) result" where
  "template_next h list k descend cur ins copy =
     (case h cur of
        None \<Rightarrow> Fault NullDeref
      | Some cn \<Rightarrow>
          (case (if descend then first_child cn else None) of
             None \<Rightarrow> template_skip h list k cur ins
           | Some ch \<Rightarrow>
               (case h ch of
                  None \<Rightarrow> Fault NullDeref
                | Some chn \<Rightarrow>
                    if ntype chn \<noteq> XML_ENTITY_DECL
                    then Return (Some ch, if copy \<noteq> None then copy else ins)
                    else template_skip h list k cur ins)))"

text \<open>
  The loop of lines 945 to 1081 and the end of the function. With a NULL insertion point
  the loop returns at once (line 954); when the walk is over the scope is popped if one was
  pushed (lines 1082 to 1084).
\<close>

fun template_walk ::
  "env \<Rightarrow> callee \<Rightarrow> xmlNodePtr \<Rightarrow> nat \<Rightarrow> xmlNodePtr \<Rightarrow> nat \<Rightarrow> nat \<Rightarrow> xmlNodePtr \<Rightarrow> xmlNodePtr
     \<Rightarrow> bool \<Rightarrow> state \<Rightarrow> state result" where
  "template_walk e rec node list oldInsert 0 cur ins copy has_variables s = Fault OutOfFuel"
| "template_walk e rec node list oldInsert (Suc k) cur ins copy has_variables s =
     (case ins of
        None \<Rightarrow> Return s
      | Some i \<Rightarrow>
          (case template_step e rec node oldInsert cur i copy has_variables s of
             Fault f \<Rightarrow> Fault f
           | Return (descend, copy1, hv, s1) \<Rightarrow>
               (case template_next (heap s1) list k descend cur ins copy1 of
                  Fault f \<Rightarrow> Fault f
                | Return (nxt, ins1) \<Rightarrow>
                    (case nxt of
                       None \<Rightarrow> Return (if hv then xsltPopStack s1 else s1)
                     | Some cur1 \<Rightarrow>
                         template_walk e rec node list oldInsert k cur1 ins1 copy1 hv s1))))"

text \<open>\<^verbatim>\<open>xsltApplyOneTemplate\<close>.\<close>

definition xsltApplyOneTemplate ::
  "env \<Rightarrow> callee \<Rightarrow> nat \<Rightarrow> xmlNodePtr \<Rightarrow> xmlNodePtr \<Rightarrow> state \<Rightarrow> state result" where
  "xsltApplyOneTemplate e rec fuel node list s =
     (case list of
        None \<Rightarrow> Return s
      | Some l \<Rightarrow>
          template_walk e rec node l (ctxt_insert s) fuel l (ctxt_insert s) None False s)"

section \<open>Dispatch\<close>

text \<open>
  \<^verbatim>\<open>xsltProcessOneNode\<close>. With no template the trace message reads \<^verbatim>\<open>node->type\<close>.
\<close>

definition xsltProcessOneNode :: "env \<Rightarrow> callee \<Rightarrow> nat \<Rightarrow> xmlNodePtr \<Rightarrow> state \<Rightarrow> state result" where
  "xsltProcessOneNode e rec fuel node s =
     (case xsltGetTemplate e s node of
        None \<Rightarrow> xsltDefaultProcessOneNode e rec fuel node s
      | Some content \<Rightarrow> rec (ApplyOneTemplate node content) s)"

text \<open>
  The interpreter: every function with its recursive calls closed, under a bound on the
  depth of the calls and on the length of each walk.
\<close>

primrec xslt_exec :: "env \<Rightarrow> nat \<Rightarrow> call \<Rightarrow> state \<Rightarrow> state result" where
  "xslt_exec e 0 c s = Fault OutOfFuel"
| "xslt_exec e (Suc k) c s =
     (case c of
        ProcessOneNode node \<Rightarrow> xsltProcessOneNode e (xslt_exec e k) k node s
      | ApplyOneTemplate node list \<Rightarrow> xsltApplyOneTemplate e (xslt_exec e k) k node list s
      | ApplyTemplates node inst \<Rightarrow> xsltApplyTemplates e (xslt_exec e k) node inst s
      | ValueOf node inst \<Rightarrow> xsltValueOf e node inst s
      | If node inst \<Rightarrow> xsltIf e (xslt_exec e k) node inst s
      | ForEach node inst \<Rightarrow> xsltForEach e (xslt_exec e k) node inst s
      | Attribute node inst \<Rightarrow> xsltAttribute e node inst s
      | Comment node inst \<Rightarrow> xsltComment e node inst s
      | ProcessingInstruction node inst \<Rightarrow> xsltProcessingInstruction e node inst s
      | CallTemplate node inst \<Rightarrow> xsltCallTemplate e (xslt_exec e k) node inst s)"

section \<open>Example inputs\<close>

text \<open>
  A small environment: every allocation succeeds, no expression has a value, no template
  matches or has a name, a declaration is recorded in the innermost scope, and an attribute
  value template is the attribute as written.
\<close>

definition declare_in_scope :: "nat \<Rightarrow> state \<Rightarrow> state" where
  "declare_in_scope c s =
     (case ctxt_vars s of
        [] \<Rightarrow> s\<lparr>ctxt_vars := [[c]]\<rparr>
      | sc # r \<Rightarrow> s\<lparr>ctxt_vars := (c # sc) # r\<rparr>)"

definition example_env :: env where
  "example_env =
     \<lparr>malloc_ok = (\<lambda>n. True),
      XSLT_OUTPUT_XML = 0, XSLT_OUTPUT_HTML = 1, XSLT_OUTPUT_TEXT = 2,
      XSLT_NAMESPACE = ''http://www.w3.org/1999/XSL/Transform'',
      xsltEvalGlobalVariables = Return,
      xpath_fresh = \<lparr>xp_node = None, contextSize = - 1, proximityPosition = - 1\<rparr>,
      xpath_eval = (\<lambda>conv prop s. None),
      xsltGetTemplate = (\<lambda>s node. None),
      xsltFindTemplate = (\<lambda>st name uri. None),
      xsltParseStylesheetVariable = (\<lambda>s c. Return (declare_in_scope c s)),
      xsltParseStylesheetParam = (\<lambda>s c. Return (declare_in_scope c s)),
      xsltEvalAttrValueTemplate = (\<lambda>s inst name. xmlGetNsProp (heap s) inst name),
      xsltEvalTemplateString = (\<lambda>s node inst. Return (None, s)),
      xsltAttrListTemplateProcess = (\<lambda>s copy props. props),
      xmlSplitQName2 = (\<lambda>q. None),
      xmlSearchNs = (\<lambda>s n p. None),
      xmlSearchNsByHref = (\<lambda>s n h. None),
      xmlNodeGetContent = (\<lambda>s i. None),
      sort_key_greater = (\<lambda>number a b. False),
      uninit_ptr = None\<rparr>"

definition xnode :: "xmlElementType \<Rightarrow> string \<Rightarrow> string option \<Rightarrow> nat list \<Rightarrow> xmlNodePtr \<Rightarrow> xmlNode" where
  "xnode t name content kids par =
     \<lparr>ntype = t, nname = name, ncontent = content, nns = None, nnsDef = [], nproperties = [],
      nchildren = kids, nparent = par, ndoc = None\<rparr>"

definition xslt_elem :: "string \<Rightarrow> (string \<times> string) list \<Rightarrow> nat list \<Rightarrow> xmlNodePtr \<Rightarrow> xmlNode" where
  "xslt_elem name props kids par =
     (xnode XML_ELEMENT_NODE name None kids par)
       \<lparr>nns := Some \<lparr>ns_prefix = Some ''xsl'',
                     ns_href = ''http://www.w3.org/1999/XSL/Transform''\<rparr>,
        nproperties := props\<rparr>"

definition example_style :: xsltStylesheet where
  "example_style =
     \<lparr>stripSpaces = None, s_method = None, doctypePublic = None, doctypeSystem = None,
      s_version = None, s_encoding = None\<rparr>"

text \<open>
  A state over the given nodes, with the given insertion point. Node 0 is the result
  document; new nodes are allocated from address 100 on.
\<close>

definition example_state :: "(nat \<times> xmlNode) list \<Rightarrow> xmlNodePtr \<Rightarrow> state" where
  "example_state nodes ins =
     \<lparr>heap = map_of nodes, docs = Map.empty, next_id = 100, errlog = [],
      ctxt_style = Some example_style, ctxt_type = 0, ctxt_doc = None, ctxt_node = None,
      ctxt_nodeList = None, ctxt_output = Some 0, ctxt_insert = ins,
      ctxt_xpathCtxt = Some \<lparr>xp_node = None, contextSize = 1, proximityPosition = 1\<rparr>,
      ctxt_vars = []\<rparr>"

text \<open>What a run left under a node: the children, and their contents.\<close>

definition children_content :: "state \<Rightarrow> nat \<Rightarrow> string option list" where
  "children_content s a =
     (case heap s a of
        None \<Rightarrow> []
      | Some n \<Rightarrow> map (\<lambda>c. case heap s c of None \<Rightarrow> None | Some cn \<Rightarrow> ncontent cn) (nchildren n))"

definition result_children :: "state result \<Rightarrow> nat \<Rightarrow> nat list option" where
  "result_children r a =
     (case r of
        Fault f \<Rightarrow> None
      | Return s \<Rightarrow> (case heap s a of None \<Rightarrow> None | Some n \<Rightarrow> Some (nchildren n)))"

definition result_content :: "state result \<Rightarrow> nat \<Rightarrow> string option list" where
  "result_content r a = (case r of Fault f \<Rightarrow> [] | Return s \<Rightarrow> children_content s a)"

text \<open>
  An element \<^verbatim>\<open>out\<close> of the result that already has a text child, and an
  \<^verbatim>\<open>xsl:attribute\<close> instruction.
\<close>

definition attribute_nodes :: "(nat \<times> xmlNode) list" where
  "attribute_nodes =
     [(0, xnode XML_DOCUMENT_NODE [] None [1] None),
      (1, xnode XML_ELEMENT_NODE ''out'' None [2] (Some 0)),
      (2, xnode XML_TEXT_NODE ''text'' (Some ''x'') [] (Some 1)),
      (10, xslt_elem ''attribute'' [(''name'', ''a'')] [] None)]"

text \<open>
  The instruction \<^verbatim>\<open><xsl:if test="1 +">YES</xsl:if>\<close>, run on the source element
  \<^verbatim>\<open>r\<close> (node 5). The test is not an expression: its evaluation leaves the value stack
  empty.
\<close>

definition if_nodes :: "(nat \<times> xmlNode) list" where
  "if_nodes =
     [(0, xnode XML_DOCUMENT_NODE [] None [] None),
      (5, xnode XML_ELEMENT_NODE ''r'' None [] None),
      (10, xslt_elem ''if'' [(''test'', ''1 +'')] [11] None),
      (11, xnode XML_TEXT_NODE ''text'' (Some ''YES'') [] (Some 10))]"

definition if_state :: state where
  "if_state = (example_state if_nodes (Some 0))\<lparr>ctxt_node := Some 5\<rparr>"

text \<open>The instruction \<^verbatim>\<open><xsl:call-template name="nosuch"/>\<close>.\<close>

definition call_nodes :: "(nat \<times> xmlNode) list" where
  "call_nodes =
     [(0, xnode XML_DOCUMENT_NODE [] None [] None),
      (5, xnode XML_ELEMENT_NODE ''r'' None [] None),
      (10, xslt_elem ''call-template'' [(''name'', ''nosuch'')] [] None)]"

text \<open>
  The source element \<^verbatim>\<open>a\<close> (node 5) holding one blank text node (node 6), an
  \<^verbatim>\<open>xsl:apply-templates\<close> instruction without \<^verbatim>\<open>select\<close>, and a stylesheet whose only
  whitespace rule is \<^verbatim>\<open><xsl:strip-space elements="*"/>\<close>.
\<close>

definition strip_nodes :: "(nat \<times> xmlNode) list" where
  "strip_nodes =
     [(0, xnode XML_DOCUMENT_NODE [] None [] None),
      (5, xnode XML_ELEMENT_NODE ''a'' None [6] None),
      (6, xnode XML_TEXT_NODE ''text'' (Some '' '') [] (Some 5)),
      (10, xslt_elem ''apply-templates'' [] [] None)]"

definition strip_state :: state where
  "strip_state =
     (example_state strip_nodes (Some 0))
       \<lparr>ctxt_style := Some (example_style\<lparr>stripSpaces := Some (map_of [(''*'', ''strip'')])\<rparr>)\<rparr>"


text \<open>
  A template (node 20) whose body is an \<^verbatim>\<open>xsl:variable\<close>, a document fragment node
  holding the text \<^verbatim>\<open>x\<close> (a tree built with the tree interface: \<^verbatim>\<open>xmlNewDocFragment\<close>,
  \<^verbatim>\<open>xmlAddChild\<close>), and the text \<^verbatim>\<open>y\<close>. The result document (node 0) has the element
  \<^verbatim>\<open>out\<close> (node 1).
\<close>

definition body_nodes :: "(nat \<times> xmlNode) list" where
  "body_nodes =
     [(0, xnode XML_DOCUMENT_NODE [] None [1] None),
      (1, xnode XML_ELEMENT_NODE ''out'' None [] (Some 0)),
      (5, xnode XML_ELEMENT_NODE ''r'' None [] None),
      (20, xslt_elem ''template'' [(''match'', ''r'')] [21, 22, 24] None),
      (21, xslt_elem ''variable'' [(''name'', ''v'')] [] (Some 20)),
      (22, xnode XML_DOCUMENT_FRAG_NODE ''fragment'' None [23] (Some 20)),
      (23, xnode XML_TEXT_NODE ''text'' (Some ''x'') [] (Some 22)),
      (24, xnode XML_TEXT_NODE ''text'' (Some ''y'') [] (Some 20))]"

definition result_vars :: "state result \<Rightarrow> nat list list option" where
  "result_vars r = (case r of Fault f \<Rightarrow> None | Return s \<Rightarrow> Some (ctxt_vars s))"

text \<open>
  A stylesheet with one template, for the document node, whose body is the literal element
  \<^verbatim>\<open>div\<close>; it declares a public DOCTYPE identifier and the output method \<open>m\<close>. The
  enumerator \<^verbatim>\<open>XSLT_OUTPUT_XML\<close> has the value \<open>K\<close>.
\<close>

definition page_nodes :: "(nat \<times> xmlNode) list" where
  "page_nodes =
     [(5, xnode XML_DOCUMENT_NODE [] None [] None),
      (20, xslt_elem ''template'' [(''match'', ''/'')] [21] None),
      (21, xnode XML_ELEMENT_NODE ''div'' None [] (Some 20))]"

definition page_env :: "int \<Rightarrow> env" where
  "page_env K =
     example_env\<lparr>XSLT_OUTPUT_XML := K,
       xsltGetTemplate := (\<lambda>s node. if node = Some 5 then Some (Some 21) else None)\<rparr>"

definition page_world :: world where
  "page_world = \<lparr>heap = map_of page_nodes, docs = Map.empty, next_id = 100, errlog = []\<rparr>"

definition page_style :: "string option \<Rightarrow> xsltStylesheet" where
  "page_style m = example_style\<lparr>s_method := m, doctypePublic := Some ''-//EX//DTD page//EN''\<rparr>"

definition page_run :: "int \<Rightarrow> string option \<Rightarrow> (xmlNodePtr \<times> world) result" where
  "page_run K m =
     xsltApplyStylesheet (page_env K) (xslt_exec (page_env K) 4) (Some (page_style m)) (Some 5)
       page_world"

text \<open>The internal subset of the document a run returned.\<close>

definition result_subset :: "(xmlNodePtr \<times> world) result \<Rightarrow> xmlDtd option" where
  "result_subset r =
     (case r of
        Fault f \<Rightarrow> None
      | Return (res, w) \<Rightarrow>
          (case res of
             None \<Rightarrow> None
           | Some d \<Rightarrow> (case docs w d of None \<Rightarrow> None | Some x \<Rightarrow> d_intSubset x)))"

text \<open>
  The source element \<^verbatim>\<open>r\<close> (node 5) with two \<^verbatim>\<open>i\<close> children, the instructions
  \<^verbatim>\<open><xsl:for-each select="i">,</xsl:for-each>\<close> and \<^verbatim>\<open><xsl:apply-templates select="i"/>\<close>,
  and an XPath engine for which \<^verbatim>\<open>i\<close> selects the two children.
\<close>

definition loop_nodes :: "(nat \<times> xmlNode) list" where
  "loop_nodes =
     [(0, xnode XML_DOCUMENT_NODE [] None [] None),
      (5, xnode XML_ELEMENT_NODE ''r'' None [6, 7] None),
      (6, xnode XML_ELEMENT_NODE ''i'' None [] (Some 5)),
      (7, xnode XML_ELEMENT_NODE ''i'' None [] (Some 5)),
      (10, xslt_elem ''for-each'' [(''select'', ''i'')] [11] None),
      (11, xnode XML_TEXT_NODE ''text'' (Some '','') [] (Some 10)),
      (12, xslt_elem ''apply-templates'' [(''select'', ''i'')] [] None)]"

definition loop_env :: env where
  "loop_env =
     example_env\<lparr>xpath_eval :=
       (\<lambda>conv sel s. if sel = ''i'' then Some (XPATH_NODESET (Some [6, 7])) else None)\<rparr>"

definition loop_state :: state where
  "loop_state = example_state loop_nodes (Some 0)"

text \<open>
  The source element \<^verbatim>\<open>r\<close> (node 5) with the children \<^verbatim>\<open><i k="a"/>\<close> (node 6), a
  comment (node 8) and \<^verbatim>\<open><i k="b"/>\<close> (node 7); the instruction
  \<^verbatim>\<open><xsl:for-each select="i"><xsl:sort select="@k" order="descending"/>,</xsl:for-each>\<close>
  (node 10) and the instruction \<^verbatim>\<open><xsl:apply-templates/>\<close> (node 12). For the XPath
  engine \<^verbatim>\<open>i\<close> selects the two elements, and \<^verbatim>\<open>@k\<close> is \<^verbatim>\<open>a\<close> at node 6 and \<^verbatim>\<open>b\<close>
  elsewhere; the key \<^verbatim>\<open>b\<close> is greater than the key \<^verbatim>\<open>a\<close>.
\<close>

definition sort_nodes :: "(nat \<times> xmlNode) list" where
  "sort_nodes =
     [(0, xnode XML_DOCUMENT_NODE [] None [] None),
      (5, xnode XML_ELEMENT_NODE ''r'' None [6, 8, 7] None),
      (6, (xnode XML_ELEMENT_NODE ''i'' None [] (Some 5))\<lparr>nproperties := [(''k'', ''a'')]\<rparr>),
      (8, xnode XML_COMMENT_NODE ''comment'' (Some ''note'') [] (Some 5)),
      (7, (xnode XML_ELEMENT_NODE ''i'' None [] (Some 5))\<lparr>nproperties := [(''k'', ''b'')]\<rparr>),
      (10, xslt_elem ''for-each'' [(''select'', ''i'')] [13, 11] None),
      (13, xslt_elem ''sort'' [(''select'', ''@k''), (''order'', ''descending'')] [] (Some 10)),
      (11, xnode XML_TEXT_NODE ''text'' (Some '','') [] (Some 10)),
      (12, xslt_elem ''apply-templates'' [] [] None)]"

definition sort_env :: env where
  "sort_env =
     example_env\<lparr>xpath_eval :=
       (\<lambda>conv sel s.
          if sel = ''i'' then Some (XPATH_NODESET (Some [6, 7]))
          else if sel = ''@k''
          then Some (XPATH_STRING (if ctxt_node s = Some 6 then ''a'' else ''b''))
          else None),
       sort_key_greater :=
         (\<lambda>number a b.
            case a of
              Some (XPATH_STRING x) \<Rightarrow>
                (case b of Some (XPATH_STRING y) \<Rightarrow> x = ''b'' \<and> y = ''a'' | _ \<Rightarrow> False)
            | _ \<Rightarrow> False)\<rparr>"

definition sort_state :: state where
  "sort_state = example_state sort_nodes (Some 0)"

text \<open>
  The state in which the selection of \<^verbatim>\<open>i\<close> at node 5 leaves \<open>sort_state\<close>, and the list
  and the state that the walk of \<^verbatim>\<open>xsl:apply-templates\<close> over the children of node 5
  gives.
\<close>

definition sort_selected :: state where
  "sort_selected =
     sort_state\<lparr>next_id := 101,
       ctxt_xpathCtxt := Some \<lparr>xp_node = Some 5, contextSize = 1, proximityPosition = 1\<rparr>\<rparr>"

definition sort_children :: "nat list option \<times> state" where
  "sort_children =
     (case apply_templates_children [6, 8, 7] (Some []) (snd (xmlMalloc sort_env sort_state)) of
        Fault f \<Rightarrow> (None, sort_state)
      | Return p \<Rightarrow> p)"


section \<open>The properties\<close>

text \<open>
  The node list, the context size and the proximity position of \<open>s'\<close> are those of \<open>s\<close>.
  The last two are fields of the XPath context: when \<open>s\<close> has no XPath context yet there
  is nothing to compare them with.
\<close>

definition position_restored :: "state \<Rightarrow> state \<Rightarrow> bool" where
  "position_restored s s' =
     (ctxt_nodeList s' = ctxt_nodeList s
      \<and> (case ctxt_xpathCtxt s of
            None \<Rightarrow> True
          | Some x \<Rightarrow>
              (case ctxt_xpathCtxt s' of
                 None \<Rightarrow> False
               | Some x' \<Rightarrow>
                   contextSize x' = contextSize x
                   \<and> proximityPosition x' = proximityPosition x)))"

text \<open>
  The context size of \<open>s'\<close> is that of \<open>s\<close>; a callee keeps the context size when every
  call that returns does; the environment keeps it when its state-changing functions do.
\<close>

definition context_size_kept :: "state \<Rightarrow> state \<Rightarrow> bool" where
  "context_size_kept s s' =
     (case ctxt_xpathCtxt s of
        None \<Rightarrow> True
      | Some x \<Rightarrow>
          (case ctxt_xpathCtxt s' of None \<Rightarrow> False | Some x' \<Rightarrow> contextSize x' = contextSize x))"

definition keeps_context_size :: "callee \<Rightarrow> bool" where
  "keeps_context_size rec = (\<forall>c s s'. rec c s = Return s' \<longrightarrow> context_size_kept s s')"

definition env_keeps_context_size :: "env \<Rightarrow> bool" where
  "env_keeps_context_size e =
     ((\<forall>s c s'. xsltParseStylesheetVariable e s c = Return s' \<longrightarrow> context_size_kept s s')
      \<and> (\<forall>s c s'. xsltParseStylesheetParam e s c = Return s' \<longrightarrow> context_size_kept s s')
      \<and> (\<forall>s n i v s'. xsltEvalTemplateString e s n i = Return (v, s') \<longrightarrow>
            context_size_kept s s'))"

text \<open>Whether a run returned.\<close>

definition returns :: "'a result \<Rightarrow> bool" where
  "returns r = (case r of Fault f \<Rightarrow> False | Return x \<Rightarrow> True)"

text \<open>
  What a state shows of the iteration it is in: the current node, the context size and the
  proximity position.
\<close>

definition seen :: "state \<Rightarrow> xmlNodePtr \<times> (int \<times> int) option" where
  "seen s =
     (ctxt_node s,
      case ctxt_xpathCtxt s of
        None \<Rightarrow> None
      | Some y \<Rightarrow> Some (contextSize y, proximityPosition y))"

text \<open>
  A loop over the list \<open>l\<close> has run through the states \<open>ss\<close>: there is one state more than
  there are nodes, and for every index \<open>j\<close> the body of the node at \<open>j\<close> was called in the
  state \<open>ss ! j\<close> with the current node and the proximity position set as lines 906, 907
  and 1254, 1255 set them (\<open>iteration_entry\<close>), and returned the state \<open>ss ! (j + 1)\<close>.
\<close>

definition iteration_runs :: "callee \<Rightarrow> (nat \<Rightarrow> call) \<Rightarrow> nat list \<Rightarrow> state list \<Rightarrow> bool" where
  "iteration_runs rec body l ss =
     (length ss = Suc (length l)
      \<and> (\<forall>j<length l. \<exists>y.
            ctxt_xpathCtxt (ss ! j) = Some y
            \<and> rec (body (l ! j)) (iteration_entry (l ! j) j y (ss ! j)) = Return (ss ! Suc j)))"

text \<open>
  An instruction \<open>inst\<close> that selected the list \<open>l\<close> in the state \<open>s\<close> and returned \<open>s'\<close>
  has iterated over it. The sorts were run on the installed list and gave the state
  \<open>ss ! 0\<close>; the list iterated, \<open>l'\<close>, is the installed list as the sorts left it, as long as
  \<open>l\<close>; the loop over \<open>l'\<close> ran through the states \<open>ss\<close>; in iteration \<open>j\<close> the body saw the
  node of \<open>l'\<close> at \<open>j\<close> and the proximity position \<open>j + 1\<close>, and it saw the context size \<open>N\<close>
  (the length of the list) provided every iteration before it left the context size it
  found; and \<open>s'\<close> is the last of the states with the saved fields restored.
\<close>

definition iterated ::
  "env \<Rightarrow> callee \<Rightarrow> (xmlNodePtr \<Rightarrow> nat \<Rightarrow> call) \<Rightarrow> xmlNodePtr \<Rightarrow> nat \<Rightarrow> nat list \<Rightarrow> state \<Rightarrow> state
     \<Rightarrow> bool" where
  "iterated e rec body node inst l s s' =
     (\<exists>x instn replacement l' ss.
        ctxt_xpathCtxt s = Some x \<and> heap s inst = Some instn
        \<and> skip_sorts e node (nchildren instn) (install_list l x s) = Return (replacement, ss ! 0)
        \<and> l' = sorted_list l (ss ! 0) \<and> length l' = length l
        \<and> iteration_runs rec (body replacement) l' ss
        \<and> (\<forall>j<length l. \<forall>y. ctxt_xpathCtxt (ss ! j) = Some y \<longrightarrow>
              seen (iteration_entry (l' ! j) j y (ss ! j))
                = (Some (l' ! j), Some (contextSize y, int j + 1))
              \<and> ((\<forall>i<j. context_size_kept (ss ! i) (ss ! Suc i)) \<longrightarrow>
                    contextSize y = int (length l)))
        \<and> (\<exists>x3. ctxt_xpathCtxt (ss ! length l) = Some x3
              \<and> s' = (ss ! length l)
                     \<lparr>ctxt_nodeList := ctxt_nodeList s,
                      ctxt_xpathCtxt := Some (x3\<lparr>contextSize := contextSize x,
                                                  proximityPosition := proximityPosition x\<rparr>)\<rparr>))"

text \<open>
  What the default rule's walk over the children of a node named \<open>pname\<close> decides, once
  for the whole walk, about blank text (\<open>- 1\<close>: no stylesheet table to decide with), and
  which children it removes: those of a kind other than element, document, text and CDATA,
  and the blank text nodes when the decision is to strip.
\<close>

definition strip_decision :: "xsltStylesheet option \<Rightarrow> string \<Rightarrow> int" where
  "strip_decision sty pname =
     (case sty of
        None \<Rightarrow> - 1
      | Some st \<Rightarrow>
          (case stripSpaces st of
             None \<Rightarrow> - 1
           | Some tbl \<Rightarrow> default_strip_spaces tbl pname (- 1)))"

definition default_removes :: "xsltStylesheet option \<Rightarrow> string \<Rightarrow> xmlNode \<Rightarrow> bool" where
  "default_removes sty pname n =
     (if ntype n = XML_DOCUMENT_NODE \<or> ntype n = XML_HTML_DOCUMENT_NODE
         \<or> ntype n = XML_ELEMENT_NODE \<or> ntype n = XML_CDATA_SECTION_NODE
      then False
      else if ntype n = XML_TEXT_NODE then IS_BLANK_NODE n \<and> strip_decision sty pname = 1
      else True)"



text \<open>
  The set \<open>P\<close> of addresses is a source tree in the state \<open>s\<close>: its nodes were allocated
  before (new nodes get other addresses), the insertion point is not one of them, the
  children of each node are distinct nodes of \<open>P\<close> that have it as parent, the parent of
  each node is in \<open>P\<close>, and no node outside \<open>P\<close> has its parent or a child in \<open>P\<close>.
\<close>

definition apart_node :: "nat set \<Rightarrow> xmlNode \<Rightarrow> bool" where
  "apart_node P n =
     ((\<forall>p. nparent n = Some p \<longrightarrow> p \<notin> P) \<and> (\<forall>c\<in>set (nchildren n). c \<notin> P))"

definition outside :: "nat set \<Rightarrow> (nat \<Rightarrow> xmlNode option) \<Rightarrow> bool" where
  "outside P h = (\<forall>r n. r \<notin> P \<longrightarrow> h r = Some n \<longrightarrow> apart_node P n)"




section \<open>Theorems\<close>

lemmas example_defs = example_env_def example_state_def xnode_def xslt_elem_def
  example_style_def declare_in_scope_def

lemmas observe_defs = children_content_def result_content_def result_children_def

lemmas entry_defs = xsltApplyStylesheet_def xsltNewTransformContext_def xmlMalloc_def
  htmlNewDoc_def xmlNewDoc_def new_doc_node_def run_stylesheet_def set_doc_def attach_doctype_def
  xmlDocGetRootElement_def is_element_def xmlCreateIntSubset_def xsltFreeTransformContext_def

lemmas walk_defs = xsltProcessOneNode_def xsltApplyOneTemplate_def template_step_def
  template_next_def template_skip_def xsltCopyNode_def xmlCopyNode_def alloc_node_def
  new_node_def xmlAddChild_def set_node_def xml_next_def first_child_def IS_XSLT_ELEM_def
  IS_XSLT_NAME_def xsltGenericError_def xsltPopStack_def

subsection \<open>The entry point\<close>

text \<open>
  C10. Called with a NULL stylesheet or a NULL source document, \<^verbatim>\<open>xsltApplyStylesheet\<close>
  returns NULL at once: the memory is the one it was given (nothing was allocated, so no
  transformation context and no result document exist, and nothing was reported), whatever
  the allocator and the callee would have done.
\<close>

theorem xsltApplyStylesheet_null_args:
  "xsltApplyStylesheet e rec None doc w = Return (None, w)
   \<and> xsltApplyStylesheet e rec style None w = Return (None, w)"
  by (simp add: xsltApplyStylesheet_def split: option.splits)

text \<open>
  C1 (the code departs from the claim). Line 1363 assigns \<^verbatim>\<open>XSLT_OUTPUT_XML\<close> to
  \<^verbatim>\<open>ctxt->type\<close> where the claim has a comparison, so the output method plays no part in
  the decision. Whatever value \<open>K\<close> the enumerator has: if \<open>K\<close> is not zero, the
  transformation with the method \<^verbatim>\<open>html\<close> ends with an internal subset naming the result
  root \<^verbatim>\<open>div\<close> (in place of the subset \<^verbatim>\<open>HTML\<close> the document was created with); if
  \<open>K\<close> is zero, the transformation with the XML method ends with no internal subset, although
  a public identifier is declared and the result has a root element.
\<close>

theorem doctype_ignores_method:
  "result_subset (page_run K (Some ''html''))
     = (if K = 0
        then Some \<lparr>dtd_name = ''HTML'', ExternalID = Some ''-//EX//DTD page//EN'', SystemID = None\<rparr>
        else Some \<lparr>dtd_name = ''div'', ExternalID = Some ''-//EX//DTD page//EN'', SystemID = None\<rparr>)
   \<and> result_subset (page_run K None)
     = (if K = 0 then None
        else Some \<lparr>dtd_name = ''div'', ExternalID = Some ''-//EX//DTD page//EN'', SystemID = None\<rparr>)"
  by (simp add: page_run_def page_env_def page_world_def page_style_def page_nodes_def
      example_defs result_subset_def walk_defs entry_defs eval_nat_numeral Let_def)

subsection \<open>attribute\<close>

text \<open>
  C8. An \<^verbatim>\<open>xsl:attribute\<close> instruction executed while the insertion point already has a
  child reports the error and returns: the state it returns is the state it was given with
  the one message added to the error log. The node store is the same, so no attribute was
  set on the insertion point and its children are as they were.
\<close>

theorem xsltAttribute_after_children:
  assumes "ctxt_insert s = Some ins" and "heap s ins = Some insn" and "nchildren insn \<noteq> []"
  shows "xsltAttribute e node inst s
           = Return (s\<lparr>errlog := errlog s @ [''xslt:attribute : node has already children'']\<rparr>)"
  using assms by (simp add: xsltAttribute_def xsltGenericError_def)

theorem xsltAttribute_after_children_witness:
  "ctxt_insert (example_state attribute_nodes (Some 1)) = Some 1
   \<and> heap (example_state attribute_nodes (Some 1)) 1
       = Some (xnode XML_ELEMENT_NODE ''out'' None [2] (Some 0))
   \<and> xsltAttribute example_env (Some 5) (Some 10) (example_state attribute_nodes (Some 1))
       = Return ((example_state attribute_nodes (Some 1))
           \<lparr>errlog := [''xslt:attribute : node has already children'']\<rparr>)"
proof -
  have h1: "ctxt_insert (example_state attribute_nodes (Some 1)) = Some 1"
    by (simp add: example_state_def)
  have h2: "heap (example_state attribute_nodes (Some 1)) 1
              = Some (xnode XML_ELEMENT_NODE ''out'' None [2] (Some 0))"
    by (simp add: example_state_def attribute_nodes_def)
  have h3: "nchildren (xnode XML_ELEMENT_NODE ''out'' None [2] (Some 0)) \<noteq> []"
    by (simp add: xnode_def)
  show ?thesis
    using xsltAttribute_after_children [OF h1 h2 h3, of example_env "Some 5" "Some 10"] h1 h2
    by (simp add: example_state_def)
qed

subsection \<open>if\<close>

text \<open>
  C7 (the code departs from the claim). When the evaluation of the test leaves no result,
  \<^verbatim>\<open>doit\<close> keeps its initial value 1 and the body is executed: the instruction
  \<^verbatim>\<open><xsl:if test="1 +">YES</xsl:if>\<close> puts the text \<^verbatim>\<open>YES\<close> under the result document.
\<close>

theorem xsltIf_no_result_runs_body:
  "xpath_eval example_env ToBoolean ''1 +'' if_state = None
   \<and> result_content (xslt_exec example_env 4 (If (Some 5) (Some 10)) if_state) 0 = [Some ''YES'']"
  by code_simp

subsection \<open>call-template\<close>

text \<open>
  With an insertion point and a name that no template has, what \<^verbatim>\<open>xsltCallTemplate\<close> does
  is decided by the pointer \<^verbatim>\<open>cur\<close> happens to hold at line 732: no template body is run
  (the callee plays no part), and the call either stops at the read of \<^verbatim>\<open>cur->name\<close> or
  returns with one message more that carries the name of the node \<^verbatim>\<open>cur\<close> points to.
\<close>

lemma xsltCallTemplate_not_found:
  assumes ins: "ctxt_insert s = Some ins"
    and name: "xmlGetNsProp (heap s) inst ''name'' = Some prop"
    and bound: "xmlSplitQName2 e prop = None"
    and none: "xsltFindTemplate e (ctxt_style s) prop None = None"
  shows "xsltCallTemplate e rec node inst s =
           (case uninit_ptr e of
              None \<Rightarrow> Fault NullDeref
            | Some c \<Rightarrow>
                (case heap s c of
                   None \<Rightarrow> Fault NullDeref
                 | Some cn \<Rightarrow>
                     Return (s\<lparr>errlog := errlog s
                       @ [''xslt:call-template: template '' @ nname cn @ '' not found'']\<rparr>)))"
  using assms
  by (simp add: xsltCallTemplate_def split_qname_def xsltGenericError_def
      split: option.splits)

text \<open>
  C6 (the code departs from the claim). Line 732 builds the message from \<^verbatim>\<open>cur->name\<close>,
  and \<^verbatim>\<open>cur\<close> is assigned at line 735 only. On \<^verbatim>\<open><xsl:call-template name="nosuch"/>\<close>,
  with the result document as insertion point and no template of that name: when \<^verbatim>\<open>cur\<close>
  holds NULL the call stops at the read, nothing is reported and the instruction does not
  return; when \<^verbatim>\<open>cur\<close> holds the address of the source element \<^verbatim>\<open>r\<close> the message names
  \<^verbatim>\<open>r\<close>, not the template \<^verbatim>\<open>nosuch\<close>.
\<close>

theorem xsltCallTemplate_reads_unassigned_cur:
  "ctxt_insert (example_state call_nodes (Some 0)) = Some 0
   \<and> xmlGetNsProp (heap (example_state call_nodes (Some 0))) (Some 10) ''name'' = Some ''nosuch''
   \<and> xsltFindTemplate example_env (ctxt_style (example_state call_nodes (Some 0))) ''nosuch'' None
       = None
   \<and> xsltCallTemplate example_env (xslt_exec example_env 3) (Some 5) (Some 10)
        (example_state call_nodes (Some 0)) = Fault NullDeref
   \<and> xsltCallTemplate (example_env\<lparr>uninit_ptr := Some 5\<rparr>) (xslt_exec example_env 3) (Some 5)
        (Some 10) (example_state call_nodes (Some 0))
       = Return ((example_state call_nodes (Some 0))
           \<lparr>errlog := [''xslt:call-template: template r not found'']\<rparr>)"
  by (simp add: xsltCallTemplate_def example_defs call_nodes_def xmlGetNsProp_def
      split_qname_def xsltGenericError_def)

subsection \<open>Whitespace stripping\<close>

text \<open>
  C4 (the code departs from the claim). The two sites do not apply the same policy: the
  default rule's child walk consults the entry of \<^verbatim>\<open>*\<close>, and \<^verbatim>\<open>xsltApplyTemplates\<close>
  does not. With \<^verbatim>\<open>strip\<close> for \<^verbatim>\<open>*\<close> and no entry for \<^verbatim>\<open>a\<close>, the default rule on
  \<^verbatim>\<open>a\<close> removes its blank text child and writes nothing, and \<^verbatim>\<open>apply-templates\<close> on
  \<^verbatim>\<open>a\<close> keeps the child and copies the blank to the result.
\<close>

theorem strip_sites_differ:
  "default_strip_spaces (map_of [(''*'', ''strip'')]) ''a'' (- 1) = 1
   \<and> \<not> apply_templates_strip (map_of [(''*'', ''strip'')]) ''a''
   \<and> result_children (xslt_exec example_env 3 (ProcessOneNode (Some 5)) strip_state) 5 = Some []
   \<and> result_content (xslt_exec example_env 3 (ProcessOneNode (Some 5)) strip_state) 0 = []
   \<and> result_children (xslt_exec example_env 4 (ApplyTemplates (Some 5) (Some 10)) strip_state) 5
       = Some [6]
   \<and> result_content (xslt_exec example_env 4 (ApplyTemplates (Some 5) (Some 10)) strip_state) 0
       = [Some '' '']"
  by code_simp

subsection \<open>The default rule\<close>


subsection \<open>The template body\<close>

text \<open>
  C3 (the code departs from the claim). The return of line 954 leaves the function without
  the pop of line 1083. On the body of template 20, with the result document as insertion
  point, the walk pushes a scope for the variable, visits the fragment's child without a new
  insertion point, climbs back with \<^verbatim>\<open>insert = insert->parent\<close>, which is NULL, and
  returns at line 954: the scope is still on the stack. With the element \<^verbatim>\<open>out\<close> as
  insertion point the same body is walked to its end and the scope is popped.
\<close>

theorem early_return_keeps_scope:
  "ctxt_vars (example_state body_nodes (Some 0)) = []
   \<and> result_vars (xsltApplyOneTemplate example_env (xslt_exec example_env 2) 6 (Some 5) (Some 21)
        (example_state body_nodes (Some 0))) = Some [[21]]
   \<and> result_vars (xsltApplyOneTemplate example_env (xslt_exec example_env 2) 6 (Some 5) (Some 21)
        (example_state body_nodes (Some 1))) = Some []"
  by code_simp

subsection \<open>apply-templates and for-each: the saved position\<close>

lemma position_restored_refl: "position_restored s s"
  by (simp add: position_restored_def split: option.splits)

lemma position_restored_trans:
  "position_restored s s1 \<Longrightarrow> position_restored s1 s2 \<Longrightarrow> position_restored s s2"
  by (auto simp add: position_restored_def split: option.splits)

lemma set_node_ctxt [simp]:
  "ctxt_nodeList (set_node a f s) = ctxt_nodeList s"
  "ctxt_xpathCtxt (set_node a f s) = ctxt_xpathCtxt s"
  "ctxt_insert (set_node a f s) = ctxt_insert s"
  "ctxt_style (set_node a f s) = ctxt_style s"
  "ctxt_vars (set_node a f s) = ctxt_vars s"
  "next_id (set_node a f s) = next_id s"
  by (simp_all add: set_node_def split: option.splits)

lemma xmlUnlinkNode_ctxt [simp]:
  "ctxt_nodeList (xmlUnlinkNode a s) = ctxt_nodeList s"
  "ctxt_xpathCtxt (xmlUnlinkNode a s) = ctxt_xpathCtxt s"
  "ctxt_insert (xmlUnlinkNode a s) = ctxt_insert s"
  "ctxt_style (xmlUnlinkNode a s) = ctxt_style s"
  "ctxt_vars (xmlUnlinkNode a s) = ctxt_vars s"
  "next_id (xmlUnlinkNode a s) = next_id s"
  by (simp_all add: xmlUnlinkNode_def split: option.splits)

lemma xmlFreeNode_ctxt [simp]:
  "ctxt_nodeList (xmlFreeNode a s) = ctxt_nodeList s"
  "ctxt_xpathCtxt (xmlFreeNode a s) = ctxt_xpathCtxt s"
  "ctxt_insert (xmlFreeNode a s) = ctxt_insert s"
  "ctxt_style (xmlFreeNode a s) = ctxt_style s"
  "ctxt_vars (xmlFreeNode a s) = ctxt_vars s"
  "next_id (xmlFreeNode a s) = next_id s"
  by (simp_all add: xmlFreeNode_def)

lemma apply_templates_children_ctxt:
  "apply_templates_children cs list s = Return (l, s2) \<Longrightarrow>
     ctxt_nodeList s2 = ctxt_nodeList s \<and> ctxt_xpathCtxt s2 = ctxt_xpathCtxt s"
proof (induction cs arbitrary: list s)
  case Nil
  then show ?case by simp
next
  case (Cons c cs)
  then show ?case
    by (fastforce split: option.splits result.splits if_splits)
qed

lemma xpath_select_position:
  "xpath_select e conv prop node s = (s1, r) \<Longrightarrow> position_restored s s1"
  by (auto simp add: xpath_select_def xpath_ctxt_init_def xmlMalloc_def position_restored_def
      Let_def split: option.splits if_splits prod.splits)

lemma over_node_list_position:
  "over_node_list e rec body node inst list s = Return s' \<Longrightarrow> position_restored s s'"
  by (auto simp add: over_node_list_def position_restored_def
      split: option.splits result.splits prod.splits)

lemma xsltApplyTemplates_position:
  "xsltApplyTemplates e rec node inst s = Return s' \<Longrightarrow> position_restored s s'"
proof (cases "xmlGetNsProp (heap s) inst ''select''")
  case None
  assume "xsltApplyTemplates e rec node inst s = Return s'"
  with None show ?thesis
    by (auto simp add: xsltApplyTemplates_def xmlMalloc_def position_restored_refl
        split: option.splits prod.splits result.splits
        dest!: apply_templates_children_ctxt over_node_list_position)
      (auto simp add: position_restored_def split: option.splits)
next
  case (Some sel)
  assume "xsltApplyTemplates e rec node inst s = Return s'"
  with Some show ?thesis
    by (auto simp add: xsltApplyTemplates_def position_restored_refl
        split: option.splits prod.splits result.splits xmlXPathObject.splits
        dest!: xpath_select_position over_node_list_position
        intro: position_restored_trans)
qed

lemma xsltForEach_position:
  "xsltForEach e rec node inst s = Return s' \<Longrightarrow> position_restored s s'"
proof (cases "xmlGetNsProp (heap s) inst ''select''")
  case None
  assume "xsltForEach e rec node inst s = Return s'"
  with None show ?thesis
    by (auto simp add: xsltForEach_def position_restored_def xsltGenericError_def
        split: option.splits)
next
  case (Some sel)
  assume "xsltForEach e rec node inst s = Return s'"
  with Some show ?thesis
    by (auto simp add: xsltForEach_def position_restored_refl
        split: option.splits prod.splits result.splits xmlXPathObject.splits
        dest!: xpath_select_position over_node_list_position
        intro: position_restored_trans)
qed

text \<open>
  C2. Whenever \<^verbatim>\<open>xsltApplyTemplates\<close> or \<^verbatim>\<open>xsltForEach\<close> returns (after the iteration,
  or from any of the earlier exits: a NULL argument, a missing \<^verbatim>\<open>select\<close>, a failed
  allocation, a result that is not a node-set), the node list, the context size and the
  proximity position are the ones of the entry, whatever the callee did in between.
\<close>

theorem node_list_position_restored:
  "(xsltApplyTemplates e rec node inst s = Return s' \<longrightarrow> position_restored s s')
   \<and> (xsltForEach e rec node inst s = Return s' \<longrightarrow> position_restored s s')"
  by (blast intro: xsltApplyTemplates_position xsltForEach_position)

theorem node_list_position_restored_witness:
  "(\<exists>s'. xsltApplyTemplates loop_env (xslt_exec loop_env 3) (Some 5) (Some 12) loop_state
            = Return s' \<and> position_restored loop_state s')
   \<and> (\<exists>s'. xsltForEach loop_env (xslt_exec loop_env 3) (Some 5) (Some 10) loop_state
            = Return s' \<and> position_restored loop_state s')
   \<and> result_content
         (xsltForEach loop_env (xslt_exec loop_env 3) (Some 5) (Some 10) loop_state) 0
       = [Some '','', Some '','']"
proof -
  have "returns (xsltApplyTemplates loop_env (xslt_exec loop_env 3) (Some 5) (Some 12) loop_state)"
    by code_simp
  then obtain s1 where
    s1: "xsltApplyTemplates loop_env (xslt_exec loop_env 3) (Some 5) (Some 12) loop_state
           = Return s1"
    by (cases "xsltApplyTemplates loop_env (xslt_exec loop_env 3) (Some 5) (Some 12) loop_state")
      (simp_all add: returns_def)
  have "returns (xsltForEach loop_env (xslt_exec loop_env 3) (Some 5) (Some 10) loop_state)"
    by code_simp
  then obtain s2 where
    s2: "xsltForEach loop_env (xslt_exec loop_env 3) (Some 5) (Some 10) loop_state = Return s2"
    by (cases "xsltForEach loop_env (xslt_exec loop_env 3) (Some 5) (Some 10) loop_state")
      (simp_all add: returns_def)
  have out: "result_content
               (xsltForEach loop_env (xslt_exec loop_env 3) (Some 5) (Some 10) loop_state) 0
             = [Some '','', Some '','']"
    by code_simp
  from s1 s2 out
    node_list_position_restored
      [of loop_env "xslt_exec loop_env 3" "Some 5" "Some 12" loop_state s1]
    node_list_position_restored
      [of loop_env "xslt_exec loop_env 3" "Some 5" "Some 10" loop_state s2]
  show ?thesis by simp
qed

subsection \<open>apply-templates and for-each: the iteration\<close>

lemma length_sort_insert: "length (sort_insert gt x ys) = Suc (length ys)"
  by (induction ys) auto

lemma length_foldr_sort_insert: "length (foldr (sort_insert gt) xs []) = length xs"
  by (induction xs) (auto simp add: length_sort_insert)

lemma length_sort_results: "length (sort_results e number sel x s ns i) = length ns"
  by (induction ns arbitrary: i) auto

lemma length_xsltSortFunction:
  "length results = length list \<Longrightarrow>
     length (xsltSortFunction e list results descending number) = length list"
  by (simp add: xsltSortFunction_def length_foldr_sort_insert)

lemma xsltSort_list:
  assumes "xsltSort e node inst s = Return s'"
    and "ctxt_nodeList s = Some l" and "ctxt_xpathCtxt s = Some x"
  shows "\<exists>l' x'. ctxt_nodeList s' = Some l' \<and> length l' = length l
           \<and> ctxt_xpathCtxt s' = Some x' \<and> contextSize x' = contextSize x"
  using assms
  by (auto simp add: xsltSort_def xsltGenericError_def xmlMalloc_def length_xsltSortFunction
      length_sort_results split: option.splits if_splits prod.splits)

lemma skip_sorts_list:
  assumes "skip_sorts e node rs s = Return (r, s2)"
    and "ctxt_nodeList s = Some l" and "ctxt_xpathCtxt s = Some x"
  shows "\<exists>l2 x2. ctxt_nodeList s2 = Some l2 \<and> length l2 = length l
           \<and> ctxt_xpathCtxt s2 = Some x2 \<and> contextSize x2 = contextSize x"
  using assms
proof (induction rs arbitrary: s l x)
  case Nil
  then show ?case by simp
next
  case (Cons a rs)
  show ?case
  proof (cases "IS_XSLT_ELEM e (heap s) (Some a) \<and> IS_XSLT_NAME (heap s) (Some a) ''sort''")
    case False
    with Cons.prems show ?thesis by auto
  next
    case True
    with Cons.prems obtain s1 where
      sort: "xsltSort e node (Some a) s = Return s1"
      and rest: "skip_sorts e node rs s1 = Return (r, s2)"
      by (auto split: result.splits)
    from xsltSort_list [OF sort Cons.prems(2) Cons.prems(3)] obtain l1 x1 where
      l1: "ctxt_nodeList s1 = Some l1" "length l1 = length l"
      and x1: "ctxt_xpathCtxt s1 = Some x1" "contextSize x1 = contextSize x"
      by blast
    from Cons.IH [OF rest l1(1) x1(1)] l1(2) x1(2) show ?thesis by auto
  qed
qed

lemma iterate_nodes_runs:
  "iterate_nodes rec body ns i s = Return s' \<Longrightarrow>
     \<exists>ss. length ss = Suc (length ns) \<and> ss ! 0 = s \<and> ss ! length ns = s'
       \<and> (\<forall>j<length ns. \<exists>y.
             ctxt_xpathCtxt (ss ! j) = Some y
             \<and> rec (body (ns ! j)) (iteration_entry (ns ! j) (i + j) y (ss ! j))
                 = Return (ss ! Suc j))"
proof (induction ns arbitrary: i s)
  case Nil
  then have "s' = s" by simp
  then show ?case by (intro exI [of _ "[s]"]) simp
next
  case (Cons n ns)
  from Cons.prems obtain x s1 where
    x: "ctxt_xpathCtxt s = Some x"
    and run: "rec (body n) (iteration_entry n i x s) = Return s1"
    and rest: "iterate_nodes rec body ns (Suc i) s1 = Return s'"
    by (auto split: option.splits result.splits)
  from Cons.IH [OF rest] obtain ss where
    len: "length ss = Suc (length ns)" and first: "ss ! 0 = s1"
    and last: "ss ! length ns = s'"
    and step: "\<And>j. j < length ns \<Longrightarrow> \<exists>y.
                 ctxt_xpathCtxt (ss ! j) = Some y
                 \<and> rec (body (ns ! j)) (iteration_entry (ns ! j) (Suc i + j) y (ss ! j))
                     = Return (ss ! Suc j)"
    by blast
  have "\<exists>y. ctxt_xpathCtxt ((s # ss) ! j) = Some y
          \<and> rec (body ((n # ns) ! j)) (iteration_entry ((n # ns) ! j) (i + j) y ((s # ss) ! j))
              = Return ((s # ss) ! Suc j)"
    if "j < length (n # ns)" for j
  proof (cases j)
    case 0
    with x run first show ?thesis by simp
  next
    case (Suc j')
    with that have "j' < length ns" by simp
    from step [OF this] Suc show ?thesis by simp
  qed
  with len last show ?case
    by (intro exI [of _ "s # ss"]) simp
qed

lemma iteration_entry_seen:
  "seen (iteration_entry n j y s) = (Some n, Some (contextSize y, int j + 1))"
  by (simp add: seen_def iteration_entry_def)

lemma kept_sizes:
  assumes "\<forall>i<j. context_size_kept (ss ! i) (ss ! Suc i)"
    and "ctxt_xpathCtxt (ss ! 0) = Some x0"
  shows "\<exists>y. ctxt_xpathCtxt (ss ! j) = Some y \<and> contextSize y = contextSize x0"
  using assms
proof (induction j)
  case 0
  then show ?case by simp
next
  case (Suc j)
  from Suc.prems(1) have k: "context_size_kept (ss ! j) (ss ! Suc j)" by simp
  have "\<forall>i<j. context_size_kept (ss ! i) (ss ! Suc i)" using Suc.prems(1) by simp
  from Suc.IH [OF this Suc.prems(2)] obtain yj where
    "ctxt_xpathCtxt (ss ! j) = Some yj" "contextSize yj = contextSize x0"
    by blast
  with k show ?case
    by (cases "ctxt_xpathCtxt (ss ! Suc j)") (simp_all add: context_size_kept_def)
qed

lemma over_node_list_iterated:
  assumes run: "over_node_list e rec body node inst (Some l) s = Return s'"
  shows "iterated e rec body node inst l s s'"
proof -
  from run obtain x instn replacement s2 s3 x3 where
    x: "ctxt_xpathCtxt s = Some x" and instn: "heap s inst = Some instn"
    and sorts: "skip_sorts e node (nchildren instn) (install_list l x s) = Return (replacement, s2)"
    and loop: "iterate_nodes rec (body replacement) (sorted_list l s2) 0 s2 = Return s3"
    and x3: "ctxt_xpathCtxt s3 = Some x3"
    and s': "s' = s3\<lparr>ctxt_nodeList := ctxt_nodeList s,
                     ctxt_xpathCtxt := Some (x3\<lparr>contextSize := contextSize x,
                                                 proximityPosition := proximityPosition x\<rparr>)\<rparr>"
    by (auto simp add: over_node_list_def split: option.splits result.splits prod.splits)
  have "ctxt_nodeList (install_list l x s) = Some l"
    and "ctxt_xpathCtxt (install_list l x s) = Some (x\<lparr>contextSize := int (length l)\<rparr>)"
    by (simp_all add: install_list_def)
  from skip_sorts_list [OF sorts this] obtain l2 x2 where
    l2: "ctxt_nodeList s2 = Some l2" "length l2 = length l"
    and x2: "ctxt_xpathCtxt s2 = Some x2" "contextSize x2 = int (length l)"
    by auto
  have len: "length (sorted_list l s2) = length l"
    using l2 by (simp add: sorted_list_def)
  from iterate_nodes_runs [OF loop] obtain ss where
    ss: "length ss = Suc (length (sorted_list l s2))" "ss ! 0 = s2"
      "ss ! length (sorted_list l s2) = s3"
    and step: "\<forall>j<length (sorted_list l s2). \<exists>y.
                 ctxt_xpathCtxt (ss ! j) = Some y
                 \<and> rec (body replacement (sorted_list l s2 ! j))
                       (iteration_entry (sorted_list l s2 ! j) (0 + j) y (ss ! j))
                     = Return (ss ! Suc j)"
    by blast
  have runs: "iteration_runs rec (body replacement) (sorted_list l (ss ! 0)) ss"
    using ss step by (simp add: iteration_runs_def)
  have sees: "seen (iteration_entry (sorted_list l (ss ! 0) ! j) j y (ss ! j))
                = (Some (sorted_list l (ss ! 0) ! j), Some (contextSize y, int j + 1))
              \<and> ((\<forall>i<j. context_size_kept (ss ! i) (ss ! Suc i)) \<longrightarrow>
                    contextSize y = int (length l))"
    if "ctxt_xpathCtxt (ss ! j) = Some y" for j y
  proof -
    have "contextSize y = int (length l)" if k: "\<forall>i<j. context_size_kept (ss ! i) (ss ! Suc i)"
    proof -
      have "ctxt_xpathCtxt (ss ! 0) = Some x2" using ss(2) x2(1) by simp
      from kept_sizes [OF k this] \<open>ctxt_xpathCtxt (ss ! j) = Some y\<close> x2(2)
      show ?thesis by simp
    qed
    then show ?thesis by (simp add: iteration_entry_seen)
  qed
  show ?thesis
    unfolding iterated_def
  proof (intro exI conjI)
    show "ctxt_xpathCtxt s = Some x" by (rule x)
    show "heap s inst = Some instn" by (rule instn)
    show "skip_sorts e node (nchildren instn) (install_list l x s) = Return (replacement, ss ! 0)"
      using sorts ss(2) by simp
    show "sorted_list l (ss ! 0) = sorted_list l (ss ! 0)" by (rule refl)
    show "length (sorted_list l (ss ! 0)) = length l" using len ss(2) by simp
    show "iteration_runs rec (body replacement) (sorted_list l (ss ! 0)) ss" by (rule runs)
    show "\<forall>j<length l. \<forall>y. ctxt_xpathCtxt (ss ! j) = Some y \<longrightarrow>
            seen (iteration_entry (sorted_list l (ss ! 0) ! j) j y (ss ! j))
              = (Some (sorted_list l (ss ! 0) ! j), Some (contextSize y, int j + 1))
            \<and> ((\<forall>i<j. context_size_kept (ss ! i) (ss ! Suc i)) \<longrightarrow>
                  contextSize y = int (length l))"
      using sees by blast
    show "ctxt_xpathCtxt (ss ! length l) = Some x3" using x3 ss(3) len by simp
    show "s' = (ss ! length l)
                 \<lparr>ctxt_nodeList := ctxt_nodeList s,
                  ctxt_xpathCtxt := Some (x3\<lparr>contextSize := contextSize x,
                                              proximityPosition := proximityPosition x\<rparr>)\<rparr>"
      using s' ss(3) len by simp
  qed
qed

lemma over_node_list_no_list: "over_node_list e rec body node inst None s \<noteq> Return s'"
  by (simp add: over_node_list_def)

lemma xsltForEach_iterated:
  assumes "xmlGetNsProp (heap s) (Some i) ''select'' = Some sel"
    and "xpath_select e AsIs sel (Some nd) s = (s1, Some (Some (XPATH_NODESET (Some l))))"
    and "xsltForEach e rec (Some nd) (Some i) s = Return s'"
  shows "iterated e rec (\<lambda>r m. ApplyOneTemplate (Some m) r) (Some nd) i l s1 s'"
  using assms by (intro over_node_list_iterated) (simp add: xsltForEach_def)

lemma xsltApplyTemplates_iterated:
  assumes "xmlGetNsProp (heap s) (Some i) ''select'' = Some sel"
    and "xpath_select e AsIs sel (Some nd) s = (s1, Some (Some (XPATH_NODESET (Some l))))"
    and "xsltApplyTemplates e rec (Some nd) (Some i) s = Return s'"
  shows "iterated e rec (\<lambda>r m. ProcessOneNode (Some m)) (Some nd) i l s1 s'"
  using assms
  by (intro over_node_list_iterated) (simp add: xsltApplyTemplates_def split: option.splits)

lemma apply_templates_children_no_list:
  "apply_templates_children cs None s = Return (l, s2) \<Longrightarrow> l = None"
  by (induction cs arbitrary: s)
    (auto simp add: xmlXPathNodeSetAdd_def split: option.splits result.splits if_splits)

lemma xsltApplyTemplates_children_iterated:
  assumes "xmlGetNsProp (heap s) (Some i) ''select'' = None"
    and "heap s nd = Some n"
    and "apply_templates_children (nchildren n) (Some []) (snd (xmlMalloc e s)) = Return (Some l, s1)"
    and "xsltApplyTemplates e rec (Some nd) (Some i) s = Return s'"
  shows "iterated e rec (\<lambda>r m. ProcessOneNode (Some m)) (Some nd) i l s1 s'"
proof (cases "fst (xmlMalloc e s)")
  case None
  with assms(1,2,4) show ?thesis
    by (auto simp add: xsltApplyTemplates_def over_node_list_no_list
        split: prod.splits result.splits dest!: apply_templates_children_no_list)
next
  case (Some m)
  with assms show ?thesis
    by (intro over_node_list_iterated) (simp add: xsltApplyTemplates_def split: prod.splits)
qed

text \<open>
  C9. When \<^verbatim>\<open>xsltForEach\<close> or \<^verbatim>\<open>xsltApplyTemplates\<close> has a list of \<open>N\<close> nodes to go over
  (selected by its \<^verbatim>\<open>select\<close> expression or, for \<^verbatim>\<open>xsl:apply-templates\<close> without one,
  collected from the children of the current node) and returns, it has run \<open>N\<close>
  iterations over the list as the sorts left it: iteration \<open>j\<close> called its body with the
  current node set to the node of the list at \<open>j\<close> and the proximity position set to \<open>j + 1\<close>,
  and the state returned is the one the last body returned, with the saved fields restored.
  The context size is written once, before the loop (lines 894 and 1242): the first
  iteration finds \<open>N\<close> there, and so does every iteration whose predecessors each returned
  with the context size they were given, as every function of \<^verbatim>\<open>transform.c\<close> does (next
  section).
\<close>

theorem iteration_context:
  "(xmlGetNsProp (heap s) (Some i) ''select'' = Some sel
      \<and> xpath_select e AsIs sel (Some nd) s = (s1, Some (Some (XPATH_NODESET (Some l))))
      \<and> xsltForEach e rec (Some nd) (Some i) s = Return s'
    \<longrightarrow> iterated e rec (\<lambda>r m. ApplyOneTemplate (Some m) r) (Some nd) i l s1 s')
   \<and> (xmlGetNsProp (heap s) (Some i) ''select'' = Some sel
      \<and> xpath_select e AsIs sel (Some nd) s = (s1, Some (Some (XPATH_NODESET (Some l))))
      \<and> xsltApplyTemplates e rec (Some nd) (Some i) s = Return s'
    \<longrightarrow> iterated e rec (\<lambda>r m. ProcessOneNode (Some m)) (Some nd) i l s1 s')
   \<and> (xmlGetNsProp (heap s) (Some i) ''select'' = None \<and> heap s nd = Some n
      \<and> apply_templates_children (nchildren n) (Some []) (snd (xmlMalloc e s))
          = Return (Some l, s1)
      \<and> xsltApplyTemplates e rec (Some nd) (Some i) s = Return s'
    \<longrightarrow> iterated e rec (\<lambda>r m. ProcessOneNode (Some m)) (Some nd) i l s1 s')"
  by (blast intro: xsltForEach_iterated xsltApplyTemplates_iterated
      xsltApplyTemplates_children_iterated)

subsection \<open>The interpreter keeps the context size\<close>

text \<open>
  Every call of \<open>xslt_exec\<close> that returns has kept the context size, provided the
  declarations of variables and the evaluation of template strings (which belong to the
  environment) keep it. So with the interpreter as callee every iteration runs with the
  context size \<open>N\<close>.
\<close>

lemma context_size_kept_refl: "context_size_kept s s"
  by (simp add: context_size_kept_def split: option.splits)

lemma context_size_kept_trans:
  "context_size_kept s s1 \<Longrightarrow> context_size_kept s1 s2 \<Longrightarrow> context_size_kept s s2"
  by (auto simp add: context_size_kept_def split: option.splits)

lemma context_size_kept_same:
  "ctxt_xpathCtxt s' = ctxt_xpathCtxt s \<Longrightarrow> context_size_kept s s'"
  by (simp add: context_size_kept_def split: option.splits)

lemma position_restored_kept: "position_restored s s' \<Longrightarrow> context_size_kept s s'"
  by (auto simp add: position_restored_def context_size_kept_def split: option.splits)

lemma xmlAddChild_ctxt [simp]:
  "ctxt_nodeList (xmlAddChild p c s) = ctxt_nodeList s"
  "ctxt_xpathCtxt (xmlAddChild p c s) = ctxt_xpathCtxt s"
  "ctxt_insert (xmlAddChild p c s) = ctxt_insert s"
  "ctxt_style (xmlAddChild p c s) = ctxt_style s"
  "ctxt_vars (xmlAddChild p c s) = ctxt_vars s"
  "next_id (xmlAddChild p c s) = next_id s"
  by (simp_all add: xmlAddChild_def split: option.splits)

lemma xsltGenericError_ctxt [simp]:
  "ctxt_nodeList (xsltGenericError m s) = ctxt_nodeList s"
  "ctxt_xpathCtxt (xsltGenericError m s) = ctxt_xpathCtxt s"
  "ctxt_insert (xsltGenericError m s) = ctxt_insert s"
  "ctxt_style (xsltGenericError m s) = ctxt_style s"
  "ctxt_vars (xsltGenericError m s) = ctxt_vars s"
  "next_id (xsltGenericError m s) = next_id s"
  "heap (xsltGenericError m s) = heap s"
  by (simp_all add: xsltGenericError_def)

lemma alloc_node_xpathCtxt:
  "alloc_node e n s = (p, s1) \<Longrightarrow> ctxt_xpathCtxt s1 = ctxt_xpathCtxt s"
  by (auto simp add: alloc_node_def xmlMalloc_def split: if_splits)

lemma copy_child_ctxt [simp]:
  "ctxt_nodeList (copy_child e n s) = ctxt_nodeList s"
  "ctxt_xpathCtxt (copy_child e n s) = ctxt_xpathCtxt s"
  "ctxt_insert (copy_child e n s) = ctxt_insert s"
  "ctxt_style (copy_child e n s) = ctxt_style s"
  "ctxt_vars (copy_child e n s) = ctxt_vars s"
  by (simp_all add: copy_child_def xmlCopyNode_def alloc_node_def xmlMalloc_def)

lemma xmlSetProp_ctxt [simp]:
  "ctxt_xpathCtxt (xmlSetProp p n v s) = ctxt_xpathCtxt s"
  by (simp add: xmlSetProp_def split: option.splits)

lemma xmlNewNs_ctxt [simp]:
  "ctxt_xpathCtxt (xmlNewNs e a h p s) = ctxt_xpathCtxt s"
  by (simp add: xmlNewNs_def xmlMalloc_def)

lemma xsltCopyNode_xpathCtxt:
  assumes "xsltCopyNode e node ins s = Return (c, s1)"
  shows "ctxt_xpathCtxt s1 = ctxt_xpathCtxt s"
proof -
  from assms obtain n where n: "heap s node = Some n"
    by (auto simp add: xsltCopyNode_def split: option.splits)
  from assms n obtain a s0 where a: "xmlCopyNode e n s = (Some a, s0)"
    by (cases "xmlCopyNode e n s") (auto simp add: xsltCopyNode_def split: option.splits)
  have s0: "ctxt_xpathCtxt s0 = ctxt_xpathCtxt s"
    using a by (auto simp add: xmlCopyNode_def dest: alloc_node_xpathCtxt)
  from assms n a obtain insn where insn: "heap s0 ins = Some insn"
    by (auto simp add: xsltCopyNode_def split: option.splits)
  from assms n a insn s0 show ?thesis
    by (simp add: xsltCopyNode_def Let_def split: option.splits if_splits) auto
qed

lemma TODO_ctxt [simp]:
  "ctxt_xpathCtxt (TODO s) = ctxt_xpathCtxt s"
  "ctxt_nodeList (TODO s) = ctxt_nodeList s"
  by (simp_all add: TODO_def)

lemma value_of_escaping_ctxt [simp]:
  "ctxt_xpathCtxt (value_of_escaping p s) = ctxt_xpathCtxt s"
  by (simp add: value_of_escaping_def split: option.splits)

lemma xpath_select_kept:
  "xpath_select e conv sel node s = (s1, r) \<Longrightarrow> context_size_kept s s1"
  by (auto dest: xpath_select_position position_restored_kept)

lemma xsltValueOf_kept:
  assumes "xsltValueOf e node inst s = Return s'"
  shows "context_size_kept s s'"
proof (cases "node = None \<or> inst = None")
  case True
  with assms show ?thesis by (simp add: xsltValueOf_def context_size_kept_refl)
next
  case False
  define s0 where "s0 = value_of_escaping (xmlGetNsProp (heap s) inst ''disable-output-escaping'') s"
  have s0: "context_size_kept s s0"
    by (simp add: s0_def context_size_kept_same)
  show ?thesis
  proof (cases "xmlGetNsProp (heap s0) inst ''select''")
    case None
    with assms False have "s' = xsltGenericError ''xsltValueOf: select is not defined'' s0"
      by (simp add: xsltValueOf_def s0_def Let_def)
    then show ?thesis by (simp add: s0_def context_size_kept_same)
  next
    case (Some sel)
    obtain s1 r where sel: "xpath_select e ToString sel node s0 = (s1, r)"
      by (cases "xpath_select e ToString sel node s0")
    have s1: "context_size_kept s0 s1" using sel by (rule xpath_select_kept)
    have "ctxt_xpathCtxt s' = ctxt_xpathCtxt s1"
      using assms False Some sel
      by (auto simp add: xsltValueOf_def s0_def [symmetric] Let_def xmlNewText_def
          split: option.splits prod.splits xmlXPathObject.splits
          dest: alloc_node_xpathCtxt)
    then have "context_size_kept s1 s'" by (rule context_size_kept_same)
    with s0 s1 show ?thesis by (blast intro: context_size_kept_trans)
  qed
qed

lemma env_template_string_kept:
  "env_keeps_context_size e \<Longrightarrow> xsltEvalTemplateString e s n i = Return (v, s') \<Longrightarrow>
     context_size_kept s s'"
  by (simp add: env_keeps_context_size_def)

lemma env_variable_kept:
  "env_keeps_context_size e \<Longrightarrow> xsltParseStylesheetVariable e s c = Return s' \<Longrightarrow>
     context_size_kept s s'"
  by (simp add: env_keeps_context_size_def)

lemma env_param_kept:
  "env_keeps_context_size e \<Longrightarrow> xsltParseStylesheetParam e s c = Return s' \<Longrightarrow>
     context_size_kept s s'"
  by (simp add: env_keeps_context_size_def)

lemma xsltAttribute_kept:
  assumes env: "env_keeps_context_size e"
    and run: "xsltAttribute e node inst s = Return s'"
  shows "context_size_kept s s'"
  using run
  by (auto simp add: xsltAttribute_def Let_def context_size_kept_refl context_size_kept_same
      split: option.splits if_splits result.splits prod.splits
      dest!: env_template_string_kept [OF env])
    (auto simp add: context_size_kept_def split: option.splits)

lemma xsltComment_kept:
  assumes env: "env_keeps_context_size e"
    and run: "xsltComment e node inst s = Return s'"
  shows "context_size_kept s s'"
  using run
  by (auto simp add: xsltComment_def xmlNewComment_def
      split: option.splits if_splits result.splits prod.splits
      dest!: env_template_string_kept [OF env] alloc_node_xpathCtxt)
    (auto simp add: context_size_kept_def split: option.splits)

lemma xsltProcessingInstruction_kept:
  assumes env: "env_keeps_context_size e"
    and run: "xsltProcessingInstruction e node inst s = Return s'"
  shows "context_size_kept s s'"
  using run
  by (auto simp add: xsltProcessingInstruction_def xmlNewPI_def context_size_kept_refl
      context_size_kept_same
      split: option.splits if_splits result.splits prod.splits
      dest!: env_template_string_kept [OF env] alloc_node_xpathCtxt)
    (auto simp add: context_size_kept_def split: option.splits)

lemma rec_kept: "keeps_context_size rec \<Longrightarrow> rec c s = Return s' \<Longrightarrow> context_size_kept s s'"
  by (simp add: keeps_context_size_def)

lemma xsltPushStack_ctxt [simp]: "ctxt_xpathCtxt (xsltPushStack s) = ctxt_xpathCtxt s"
  by (simp add: xsltPushStack_def)

lemma xsltPopStack_ctxt [simp]: "ctxt_xpathCtxt (xsltPopStack s) = ctxt_xpathCtxt s"
  by (simp add: xsltPopStack_def)

lemma xsltIf_kept:
  assumes rec: "keeps_context_size rec"
    and run: "xsltIf e rec node inst s = Return s'"
  shows "context_size_kept s s'"
  using run
  by (auto simp add: xsltIf_def context_size_kept_refl context_size_kept_same
      split: option.splits if_splits prod.splits
      dest!: xpath_select_kept rec_kept [OF rec]
      intro: context_size_kept_trans)

lemma call_template_params_kept:
  assumes env: "env_keeps_context_size e"
  shows "call_template_params e cs hp s = Return (hp', s') \<Longrightarrow> context_size_kept s s'"
proof (induction cs arbitrary: hp s)
  case Nil
  then show ?case by (simp add: context_size_kept_refl)
next
  case (Cons c cs)
  show ?case
  proof (cases "IS_XSLT_ELEM e (heap s) (Some c)")
    case False
    with Cons.prems have "call_template_params e cs hp
        (xsltGenericError ''xslt:call-template: misplaced element'' s) = Return (hp', s')"
      by simp
    from Cons.IH [OF this] show ?thesis
      by (simp add: context_size_kept_def split: option.splits)
  next
    case True
    show ?thesis
    proof (cases "IS_XSLT_NAME (heap s) (Some c) ''with-param''")
      case False
      with True Cons.prems have "call_template_params e cs hp
          (xsltGenericError ''xslt:call-template: misplaced xslt element'' s) = Return (hp', s')"
        by simp
      from Cons.IH [OF this] show ?thesis
        by (simp add: context_size_kept_def split: option.splits)
    next
      case wp: True
      with True Cons.prems obtain s1 where
        p: "xsltParseStylesheetParam e (if hp then s else xsltPushStack s) c = Return s1"
        and rest: "call_template_params e cs True s1 = Return (hp', s')"
        by (auto split: result.splits)
      have "context_size_kept (if hp then s else xsltPushStack s) s1"
        using env p by (rule env_param_kept)
      then have "context_size_kept s s1"
        by (simp add: context_size_kept_def split: option.splits if_splits)
      with Cons.IH [OF rest] show ?thesis by (blast intro: context_size_kept_trans)
    qed
  qed
qed

lemma xsltCallTemplate_kept:
  assumes env: "env_keeps_context_size e" and rec: "keeps_context_size rec"
    and run: "xsltCallTemplate e rec node inst s = Return s'"
  shows "context_size_kept s s'"
  using run
  by (auto simp add: xsltCallTemplate_def Let_def context_size_kept_refl context_size_kept_same
      split: option.splits if_splits prod.splits result.splits
      dest!: call_template_params_kept [OF env] rec_kept [OF rec])
    (auto simp add: context_size_kept_def split: option.splits)

lemma default_child_kept:
  assumes rec: "keeps_context_size rec"
    and run: "default_child e rec a n ss s = Return (del, ss1, s1)"
  shows "context_size_kept s s1"
  using run
  by (auto simp add: default_child_def context_size_kept_refl context_size_kept_same
      split: option.splits if_splits result.splits
      dest!: rec_kept [OF rec])

lemma default_walk_kept:
  assumes rec: "keeps_context_size rec"
  shows "default_walk e rec k cur ss s = Return s' \<Longrightarrow> context_size_kept s s'"
proof (induction k arbitrary: cur ss s)
  case 0
  then show ?case by (cases cur) (simp_all add: context_size_kept_refl)
next
  case (Suc k)
  show ?case
  proof (cases cur)
    case None
    with Suc.prems show ?thesis by (simp add: context_size_kept_refl)
  next
    case (Some a)
    with Suc.prems obtain n del ss1 s1 where
      step: "default_child e rec a n ss s = Return (del, ss1, s1)"
      and rest: "default_walk e rec k (xml_next (heap s1) a) ss1
                   (if del then xmlFreeNode a (xmlUnlinkNode a s1) else s1) = Return s'"
      by (auto split: option.splits result.splits)
    have "context_size_kept s s1" using rec step by (rule default_child_kept)
    moreover have "context_size_kept s1 (if del then xmlFreeNode a (xmlUnlinkNode a s1) else s1)"
      by (simp add: context_size_kept_same)
    moreover note Suc.IH [OF rest]
    ultimately show ?thesis by (blast intro: context_size_kept_trans)
  qed
qed

lemma xsltDefaultProcessOneNode_kept:
  assumes rec: "keeps_context_size rec"
    and run: "xsltDefaultProcessOneNode e rec k node s = Return s'"
  shows "context_size_kept s s'"
  using run
  by (auto simp add: xsltDefaultProcessOneNode_def context_size_kept_refl context_size_kept_same
      split: option.splits if_splits
      dest!: default_walk_kept [OF rec])

lemma xsltProcessOneNode_kept:
  assumes rec: "keeps_context_size rec"
    and run: "xsltProcessOneNode e rec k node s = Return s'"
  shows "context_size_kept s s'"
  using run
  by (auto simp add: xsltProcessOneNode_def
      split: option.splits
      dest!: xsltDefaultProcessOneNode_kept [OF rec] rec_kept [OF rec])

lemma run_instruction_kept:
  assumes rec: "keeps_context_size rec"
    and run: "run_instruction rec c ins oldInsert hv s = Return (hv', s')"
  shows "context_size_kept s s'"
  using run
  by (auto simp add: run_instruction_def split: result.splits dest!: rec_kept [OF rec])
    (auto simp add: context_size_kept_def split: option.splits)

lemma xslt_instruction_kept:
  assumes env: "env_keeps_context_size e" and rec: "keeps_context_size rec"
    and run: "xslt_instruction e rec node cur ins oldInsert hv s = Return (hv', s')"
  shows "context_size_kept s s'"
  using run
  by (auto simp add: xslt_instruction_def Let_def context_size_kept_same
      split: if_splits result.splits
      dest!: run_instruction_kept [OF rec] env_variable_kept [OF env] env_param_kept [OF env]
        rec_kept [OF rec])
    (auto simp add: context_size_kept_def split: option.splits)

lemma template_step_kept:
  assumes env: "env_keeps_context_size e" and rec: "keeps_context_size rec"
    and run: "template_step e rec node oldInsert cur ins copy hv s = Return (d, copy1, hv1, s1)"
  shows "context_size_kept s s1"
  using run
  by (auto simp add: template_step_def xmlCopyNode_def context_size_kept_same
      context_size_kept_refl
      split: option.splits if_splits result.splits prod.splits
      dest!: xslt_instruction_kept [OF env rec] xsltCopyNode_xpathCtxt alloc_node_xpathCtxt)

lemma template_walk_kept:
  assumes env: "env_keeps_context_size e" and rec: "keeps_context_size rec"
  shows "template_walk e rec node list oldInsert k cur ins copy hv s = Return s' \<Longrightarrow>
           context_size_kept s s'"
proof (induction k arbitrary: cur ins copy hv s)
  case 0
  then show ?case by simp
next
  case (Suc k)
  show ?case
  proof (cases ins)
    case None
    with Suc.prems show ?thesis by (simp add: context_size_kept_refl)
  next
    case (Some i)
    obtain d copy1 hv1 s1 where
      step: "template_step e rec node oldInsert cur i copy hv s = Return (d, copy1, hv1, s1)"
      using Suc.prems Some
      by (cases "template_step e rec node oldInsert cur i copy hv s") auto
    obtain nxt ins1 where
      nx: "template_next (heap s1) list k d cur ins copy1 = Return (nxt, ins1)"
      using Suc.prems Some step
      by (cases "template_next (heap s1) list k d cur ins copy1") auto
    have s1: "context_size_kept s s1" using env rec step by (rule template_step_kept)
    have "context_size_kept s1 s'"
    proof (cases nxt)
      case None
      with Suc.prems Some step nx have "s' = (if hv1 then xsltPopStack s1 else s1)"
        by simp
      then show ?thesis by (simp add: context_size_kept_same)
    next
      case (Some cur1)
      with Suc.prems \<open>ins = Some i\<close> step nx
      have "template_walk e rec node list oldInsert k cur1 ins1 copy1 hv1 s1 = Return s'"
        by simp
      then show ?thesis by (rule Suc.IH)
    qed
    with s1 show ?thesis by (blast intro: context_size_kept_trans)
  qed
qed

lemma xsltApplyOneTemplate_kept:
  assumes env: "env_keeps_context_size e" and rec: "keeps_context_size rec"
    and run: "xsltApplyOneTemplate e rec k node list s = Return s'"
  shows "context_size_kept s s'"
  using run
  by (auto simp add: xsltApplyOneTemplate_def context_size_kept_refl
      split: option.splits dest!: template_walk_kept [OF env rec])

lemma xslt_exec_keeps_context_size:
  assumes env: "env_keeps_context_size e"
  shows "keeps_context_size (xslt_exec e k)"
proof (induction k)
  case 0
  show ?case by (simp add: keeps_context_size_def)
next
  case (Suc k)
  show ?case
    unfolding keeps_context_size_def
  proof (intro allI impI)
    fix c s s'
    assume run: "xslt_exec e (Suc k) c s = Return s'"
    show "context_size_kept s s'"
    proof (cases c)
      case (ProcessOneNode node)
      with run show ?thesis by (auto dest: xsltProcessOneNode_kept [OF Suc])
    next
      case (ApplyOneTemplate node list)
      with run show ?thesis by (auto dest: xsltApplyOneTemplate_kept [OF env Suc])
    next
      case (ApplyTemplates node inst)
      with run show ?thesis
        by (auto dest: xsltApplyTemplates_position position_restored_kept)
    next
      case (ValueOf node inst)
      with run show ?thesis by (auto dest: xsltValueOf_kept)
    next
      case (If node inst)
      with run show ?thesis by (auto dest: xsltIf_kept [OF Suc])
    next
      case (ForEach node inst)
      with run show ?thesis
        by (auto dest: xsltForEach_position position_restored_kept)
    next
      case (Attribute node inst)
      with run show ?thesis by (auto dest: xsltAttribute_kept [OF env])
    next
      case (Comment node inst)
      with run show ?thesis by (auto dest: xsltComment_kept [OF env])
    next
      case (ProcessingInstruction node inst)
      with run show ?thesis by (auto dest: xsltProcessingInstruction_kept [OF env])
    next
      case (CallTemplate node inst)
      with run show ?thesis by (auto dest: xsltCallTemplate_kept [OF env Suc])
    qed
  qed
qed

lemma iteration_runs_kept:
  assumes "keeps_context_size rec" and "iteration_runs rec body l ss" and "i < length l"
  shows "context_size_kept (ss ! i) (ss ! Suc i)"
proof -
  from assms(2,3) obtain y where
    y: "ctxt_xpathCtxt (ss ! i) = Some y"
    and run: "rec (body (l ! i)) (iteration_entry (l ! i) i y (ss ! i)) = Return (ss ! Suc i)"
    by (auto simp add: iteration_runs_def)
  from assms(1) run have "context_size_kept (iteration_entry (l ! i) i y (ss ! i)) (ss ! Suc i)"
    by (simp add: keeps_context_size_def)
  with y show ?thesis
    by (simp add: context_size_kept_def iteration_entry_def split: option.splits)
qed

lemma iterated_sizes:
  assumes it: "iterated e rec body node inst l s s'" and keeps: "keeps_context_size rec"
  shows "\<exists>replacement l' ss.
           (\<exists>x instn. ctxt_xpathCtxt s = Some x \<and> heap s inst = Some instn
              \<and> skip_sorts e node (nchildren instn) (install_list l x s)
                  = Return (replacement, ss ! 0))
           \<and> l' = sorted_list l (ss ! 0) \<and> length l' = length l
           \<and> iteration_runs rec (body replacement) l' ss
           \<and> (\<forall>j<length l. \<exists>y. ctxt_xpathCtxt (ss ! j) = Some y
                 \<and> seen (iteration_entry (l' ! j) j y (ss ! j))
                     = (Some (l' ! j), Some (int (length l), int j + 1)))"
proof -
  from it obtain x instn replacement l' ss where
    x: "ctxt_xpathCtxt s = Some x" "heap s inst = Some instn"
    and sorts: "skip_sorts e node (nchildren instn) (install_list l x s)
                  = Return (replacement, ss ! 0)"
    and l': "l' = sorted_list l (ss ! 0)" "length l' = length l"
    and runs: "iteration_runs rec (body replacement) l' ss"
    and sees: "\<And>j y. j < length l \<Longrightarrow> ctxt_xpathCtxt (ss ! j) = Some y \<Longrightarrow>
                 seen (iteration_entry (l' ! j) j y (ss ! j))
                   = (Some (l' ! j), Some (contextSize y, int j + 1))
                 \<and> ((\<forall>i<j. context_size_kept (ss ! i) (ss ! Suc i)) \<longrightarrow>
                       contextSize y = int (length l))"
    unfolding iterated_def by blast
  have "\<exists>y. ctxt_xpathCtxt (ss ! j) = Some y
          \<and> seen (iteration_entry (l' ! j) j y (ss ! j))
              = (Some (l' ! j), Some (int (length l), int j + 1))"
    if j: "j < length l" for j
  proof -
    from runs j l'(2) obtain y where y: "ctxt_xpathCtxt (ss ! j) = Some y"
      by (auto simp add: iteration_runs_def)
    have "context_size_kept (ss ! i) (ss ! Suc i)" if "i < j" for i
      using keeps runs by (rule iteration_runs_kept) (use that j l'(2) in simp)
    with sees [OF j y] y show ?thesis by simp
  qed
  with x sorts l' runs show ?thesis by blast
qed

lemma env_keeps_sort_env: "env_keeps_context_size sort_env"
  by (simp add: env_keeps_context_size_def sort_env_def example_defs context_size_kept_def
      split: option.splits list.splits)

lemma sort_selected_sorts:
  "case skip_sorts sort_env (Some 5) [13, 11]
          (install_list [6, 7] \<lparr>xp_node = Some 5, contextSize = 1, proximityPosition = 1\<rparr>
             sort_selected) of
     Fault f \<Rightarrow> False
   | Return (r, s2) \<Rightarrow> r = Some 11 \<and> sorted_list [6, 7] s2 = [7, 6]"
  by code_simp

lemma sort_children_list: "fst sort_children = Some [6, 7]"
  by code_simp

lemma sort_children_sorts:
  "case ctxt_xpathCtxt (snd sort_children) of
     None \<Rightarrow> False
   | Some x \<Rightarrow>
       (case heap (snd sort_children) 12 of
          None \<Rightarrow> False
        | Some instn \<Rightarrow>
            (case skip_sorts sort_env (Some 5) (nchildren instn)
                    (install_list [6, 7] x (snd sort_children)) of
               Fault f \<Rightarrow> False
             | Return (r, s2) \<Rightarrow> r = None \<and> sorted_list [6, 7] s2 = [6, 7]))"
  by code_simp

text \<open>
  The instructions of \<open>sort_nodes\<close>, run by the interpreter. The \<^verbatim>\<open>xsl:for-each\<close> sorts
  its two nodes in descending order of \<^verbatim>\<open>@k\<close> and runs its body at node 7 with size 2 and
  position 1, then at node 6 with size 2 and position 2; the \<^verbatim>\<open>xsl:apply-templates\<close>
  collects the two elements among the children of node 5 and processes node 6 with size 2
  and position 1, then node 7 with size 2 and position 2.
\<close>

theorem iteration_context_witness:
  "(\<exists>s' ss.
      xsltForEach sort_env (xslt_exec sort_env 3) (Some 5) (Some 10) sort_state = Return s'
      \<and> iteration_runs (xslt_exec sort_env 3) (\<lambda>m. ApplyOneTemplate (Some m) (Some 11)) [7, 6] ss
      \<and> (\<forall>j<2. \<exists>y. ctxt_xpathCtxt (ss ! j) = Some y
            \<and> seen (iteration_entry ([7, 6] ! j) j y (ss ! j))
                = (Some ([7, 6] ! j), Some (2, int j + 1))))
   \<and> (\<exists>s' ss.
      xsltApplyTemplates sort_env (xslt_exec sort_env 3) (Some 5) (Some 12) sort_state = Return s'
      \<and> iteration_runs (xslt_exec sort_env 3) (\<lambda>m. ProcessOneNode (Some m)) [6, 7] ss
      \<and> (\<forall>j<2. \<exists>y. ctxt_xpathCtxt (ss ! j) = Some y
            \<and> seen (iteration_entry ([6, 7] ! j) j y (ss ! j))
                = (Some ([6, 7] ! j), Some (2, int j + 1))))"
proof -
  have keeps: "keeps_context_size (xslt_exec sort_env 3)"
    using env_keeps_sort_env by (rule xslt_exec_keeps_context_size)
  have sel: "xmlGetNsProp (heap sort_state) (Some 10) ''select'' = Some ''i''"
    by (simp add: xmlGetNsProp_def sort_state_def sort_nodes_def example_defs)
  have xp: "xpath_select sort_env AsIs ''i'' (Some 5) sort_state
              = (sort_selected, Some (Some (XPATH_NODESET (Some [6, 7]))))"
    by (simp add: xpath_select_def xpath_ctxt_init_def xmlMalloc_def sort_selected_def
        sort_state_def sort_env_def example_defs Let_def)
  have "returns (xsltForEach sort_env (xslt_exec sort_env 3) (Some 5) (Some 10) sort_state)"
    by code_simp
  then obtain s1 where
    run1: "xsltForEach sort_env (xslt_exec sort_env 3) (Some 5) (Some 10) sort_state = Return s1"
    by (cases "xsltForEach sort_env (xslt_exec sort_env 3) (Some 5) (Some 10) sort_state")
      (simp_all add: returns_def)
  from iteration_context
    [of sort_state 10 "''i''" sort_env 5 sort_selected "[6, 7]" "xslt_exec sort_env 3" s1]
    sel xp run1
  have it1: "iterated sort_env (xslt_exec sort_env 3) (\<lambda>r m. ApplyOneTemplate (Some m) r)
               (Some 5) 10 [6, 7] sort_selected s1"
    by simp
  from iterated_sizes [OF it1 keeps] obtain r l' ss x instn where
    pre: "ctxt_xpathCtxt sort_selected = Some x" "heap sort_selected 10 = Some instn"
    and sorts: "skip_sorts sort_env (Some 5) (nchildren instn) (install_list [6, 7] x sort_selected)
                  = Return (r, ss ! 0)"
    and l': "l' = sorted_list [6, 7] (ss ! 0)"
    and runs: "iteration_runs (xslt_exec sort_env 3) (\<lambda>m. ApplyOneTemplate (Some m) r) l' ss"
    and sees: "\<forall>j<length [6, 7 :: nat]. \<exists>y. ctxt_xpathCtxt (ss ! j) = Some y
                 \<and> seen (iteration_entry (l' ! j) j y (ss ! j))
                     = (Some (l' ! j), Some (int (length [6, 7 :: nat]), int j + 1))"
    by blast
  from pre have x: "x = \<lparr>xp_node = Some 5, contextSize = 1, proximityPosition = 1\<rparr>"
    and instn: "nchildren instn = [13, 11]"
    by (auto simp add: sort_selected_def sort_state_def sort_nodes_def example_defs)
  from sorts sort_selected_sorts x instn l' have r: "r = Some 11" and l7: "l' = [7, 6]"
    by simp_all
  from runs sees r l7 run1 have first: "\<exists>s' ss.
      xsltForEach sort_env (xslt_exec sort_env 3) (Some 5) (Some 10) sort_state = Return s'
      \<and> iteration_runs (xslt_exec sort_env 3) (\<lambda>m. ApplyOneTemplate (Some m) (Some 11)) [7, 6] ss
      \<and> (\<forall>j<2. \<exists>y. ctxt_xpathCtxt (ss ! j) = Some y
            \<and> seen (iteration_entry ([7, 6] ! j) j y (ss ! j))
                = (Some ([7, 6] ! j), Some (2, int j + 1)))"
    by auto
  have nosel: "xmlGetNsProp (heap sort_state) (Some 12) ''select'' = None"
    by (simp add: xmlGetNsProp_def sort_state_def sort_nodes_def example_defs)
  have n5: "heap sort_state 5 = Some (xnode XML_ELEMENT_NODE ''r'' None [6, 8, 7] None)"
    by (simp add: sort_state_def sort_nodes_def example_defs)
  have "returns (apply_templates_children [6, 8, 7] (Some []) (snd (xmlMalloc sort_env sort_state)))"
    by code_simp
  then have eq: "apply_templates_children [6, 8, 7] (Some [])
                   (snd (xmlMalloc sort_env sort_state)) = Return sort_children"
    unfolding sort_children_def returns_def
    by (cases "apply_templates_children [6, 8, 7] (Some []) (snd (xmlMalloc sort_env sort_state))")
      (simp_all only: result.case)
  have nch: "nchildren (xnode XML_ELEMENT_NODE ''r'' None [6, 8, 7] None) = [6, 8, 7]"
    by (simp add: xnode_def)
  have sc: "Return sort_children = Return (Some [6, 7], snd sort_children)"
    by (simp add: prod_eq_iff sort_children_list)
  have kids: "apply_templates_children (nchildren (xnode XML_ELEMENT_NODE ''r'' None [6, 8, 7] None))
                (Some []) (snd (xmlMalloc sort_env sort_state))
              = Return (Some [6, 7], snd sort_children)"
    unfolding nch eq by (rule sc)
  have "returns (xsltApplyTemplates sort_env (xslt_exec sort_env 3) (Some 5) (Some 12) sort_state)"
    by code_simp
  then obtain s2 where
    run2: "xsltApplyTemplates sort_env (xslt_exec sort_env 3) (Some 5) (Some 12) sort_state
             = Return s2"
    by (cases "xsltApplyTemplates sort_env (xslt_exec sort_env 3) (Some 5) (Some 12) sort_state")
      (simp_all add: returns_def)
  from iteration_context
    [of sort_state 12 _ sort_env 5 "snd sort_children" "[6, 7]" "xslt_exec sort_env 3" s2
      "xnode XML_ELEMENT_NODE ''r'' None [6, 8, 7] None"]
    nosel n5 kids run2
  have it2: "iterated sort_env (xslt_exec sort_env 3) (\<lambda>r m. ProcessOneNode (Some m))
               (Some 5) 12 [6, 7] (snd sort_children) s2"
    by simp
  from iterated_sizes [OF it2 keeps] obtain r2 l2 ss2 x2 instn2 where
    pre2: "ctxt_xpathCtxt (snd sort_children) = Some x2" "heap (snd sort_children) 12 = Some instn2"
    and sorts2: "skip_sorts sort_env (Some 5) (nchildren instn2)
                   (install_list [6, 7] x2 (snd sort_children)) = Return (r2, ss2 ! 0)"
    and l2: "l2 = sorted_list [6, 7] (ss2 ! 0)"
    and runs2: "iteration_runs (xslt_exec sort_env 3) (\<lambda>m. ProcessOneNode (Some m)) l2 ss2"
    and sees2: "\<forall>j<length [6, 7 :: nat]. \<exists>y. ctxt_xpathCtxt (ss2 ! j) = Some y
                 \<and> seen (iteration_entry (l2 ! j) j y (ss2 ! j))
                     = (Some (l2 ! j), Some (int (length [6, 7 :: nat]), int j + 1))"
    by blast
  from sort_children_sorts pre2 sorts2 l2 have l67: "l2 = [6, 7]"
    by simp
  from runs2 sees2 l67 run2 have second: "\<exists>s' ss.
      xsltApplyTemplates sort_env (xslt_exec sort_env 3) (Some 5) (Some 12) sort_state = Return s'
      \<and> iteration_runs (xslt_exec sort_env 3) (\<lambda>m. ProcessOneNode (Some m)) [6, 7] ss
      \<and> (\<forall>j<2. \<exists>y. ctxt_xpathCtxt (ss ! j) = Some y
            \<and> seen (iteration_entry ([6, 7] ! j) j y (ss ! j))
                = (Some ([6, 7] ! j), Some (2, int j + 1)))"
    by auto
  from first second show ?thesis by blast
qed

subsection \<open>The default rule: the source tree\<close>








lemma default_removes_children [simp]:
  "default_removes sty p (n\<lparr>nchildren := cs\<rparr>) = default_removes sty p n"
  by (simp add: default_removes_def IS_BLANK_NODE_def)

























lemma outside_free:
  assumes "outside P h"
  shows "outside P (h(r := None))"
  using assms by (simp add: outside_def)



lemma set_node_same:
  "q \<noteq> a \<Longrightarrow> heap (set_node a f w) q = heap w q"
  by (simp add: set_node_def split: option.splits)




lemma alloc_node_ctxt [simp]:
  "ctxt_insert (snd (alloc_node e x s)) = ctxt_insert s"
  "ctxt_style (snd (alloc_node e x s)) = ctxt_style s"
  "next_id (snd (alloc_node e x s)) = Suc (next_id s)"
  by (simp_all add: alloc_node_def xmlMalloc_def)

lemma apart_new_node [simp]: "apart_node P (new_node t name content)"
  by (simp add: apart_node_def new_node_def)













end
